theory Spec2Isabelle
  imports Main "HOL-Library.Sublist" "HOL-Library.Stream"
begin

section \<open>Python strings and values\<close>

text \<open>
  Python \<open>str\<close> values are modelled as \<open>string\<close>, the list of the bytes of their UTF-8
  encoding; the comparisons of the sources are with ASCII characters, which never occur
  inside the encoding of another character. \<open>str.strip()\<close> removes the ASCII white
  space characters that Python's \<open>str.isspace\<close> accepts; \<open>upper\<close> and \<open>lower\<close> change
  the ASCII letters.

  The generators print progress lines and summaries and ask before they overwrite an
  existing file. None of this is part of the model: a run is one that writes its file,
  and its result is what it writes.
\<close>

abbreviation sq :: char where "sq \<equiv> CHR 0x27"
abbreviation dq :: char where "dq \<equiv> CHR 0x22"
abbreviation nl :: char where "nl \<equiv> CHR 0x0A"
abbreviation backslash :: char where "backslash \<equiv> CHR 0x5C"

definition isspace :: "char \<Rightarrow> bool" where
  "isspace c = (c \<in> {CHR 0x09, CHR 0x0A, CHR 0x0B, CHR 0x0C, CHR 0x0D,
                      CHR 0x1C, CHR 0x1D, CHR 0x1E, CHR 0x1F, CHR 0x20})"

definition strip :: "string \<Rightarrow> string" where
  "strip s = rev (dropWhile isspace (rev (dropWhile isspace s)))"

definition startswith :: "string \<Rightarrow> string \<Rightarrow> bool" where
  "startswith s p = prefix p s"

definition endswith :: "string \<Rightarrow> string \<Rightarrow> bool" where
  "endswith s p = suffix p s"

text \<open>\<open>s.replace(old, new)\<close>: every non-overlapping occurrence, scanning from the left.\<close>

function replace :: "string \<Rightarrow> string \<Rightarrow> string \<Rightarrow> string" where
  "replace old new s =
     (if old = [] then new @ concat (map (\<lambda>c. c # new) s)
      else if s = [] then []
      else if prefix old s then new @ replace old new (drop (length old) s)
      else hd s # replace old new (tl s))"
  by pat_completeness auto
termination
  by (relation "measure (\<lambda>(old, new, s). length s)") auto

declare replace.simps [simp del]

definition upper_char :: "char \<Rightarrow> char" where
  "upper_char c =
     (if (97::nat) \<le> of_char c \<and> of_char c \<le> (122::nat)
      then char_of (of_char c - (32::nat)) else c)"

definition upper :: "string \<Rightarrow> string" where
  "upper s = map upper_char s"

text \<open>\<open>str(n)\<close> for an integer: decimal text, a minus sign for negative numbers.\<close>

definition digit_char :: "nat \<Rightarrow> char" where
  "digit_char d = char_of (48 + d)"

function str_nat :: "nat \<Rightarrow> string" where
  "str_nat n = (if n < 10 then [digit_char n] else str_nat (n div 10) @ [digit_char (n mod 10)])"
  by pat_completeness auto
termination
  by (relation "measure id") auto

declare str_nat.simps [simp del]

definition str_int :: "int \<Rightarrow> string" where
  "str_int i = (if i < 0 then CHR ''-'' # str_nat (nat (- i)) else str_nat (nat i))"

definition join :: "string \<Rightarrow> string list \<Rightarrow> string" where
  "join sep xs = (case xs of [] \<Rightarrow> [] | y # ys \<Rightarrow> y @ concat (map (\<lambda>z. sep @ z) ys))"

text \<open>
  The values \<open>escape_csv_value\<close> receives: \<open>None\<close>, a \<open>bool\<close>, an \<open>int\<close>, a \<open>str\<close>,
  or a list of integers (the branch for every other type, which works on \<open>str(value)\<close>).
\<close>

datatype pyvalue = PyNone | PyBool bool | PyInt int | PyStr string | PyList "int list"

definition str_bool :: "bool \<Rightarrow> string" where
  "str_bool b = (if b then ''True'' else ''False'')"

definition lower_char :: "char \<Rightarrow> char" where
  "lower_char c =
     (if (65::nat) \<le> of_char c \<and> of_char c \<le> (90::nat)
      then char_of (of_char c + (32::nat)) else c)"

definition lower :: "string \<Rightarrow> string" where
  "lower s = map lower_char s"

definition str_list :: "int list \<Rightarrow> string" where
  "str_list xs = ''['' @ join '', '' (map str_int xs) @ '']''"

section \<open>Record encoder (dsbulk\_generate.py, escape\_csv\_value)\<close>

definition escape_csv_value :: "pyvalue \<Rightarrow> string" where
  "escape_csv_value v =
     (case v of
        PyNone \<Rightarrow> []
      | PyBool b \<Rightarrow> lower (str_bool b)
      | PyInt i \<Rightarrow> str_int i
      | PyStr s \<Rightarrow>
          (if startswith (strip s) ''{'' \<and> endswith (strip s) ''}''
           then [dq] @ replace [dq] [dq, dq] s @ [dq]
           else if CHR '','' \<in> set s \<or> nl \<in> set s \<or> dq \<in> set s
           then [dq] @ replace [dq] [dq, dq] s @ [dq]
           else s)
      | PyList xs \<Rightarrow>
          (let str_value = str_list xs
           in if dq \<in> set str_value \<or> CHR '','' \<in> set str_value \<or> nl \<in> set str_value
              then [dq] @ replace [dq] [dq, dq] str_value @ [dq]
              else str_value))"

section \<open>SQL value tokenizer (docker\_dsbulk\_loader.py)\<close>

definition clean_value :: "string \<Rightarrow> string" where
  "clean_value v =
     (if v = [] then []
      else if upper v = ''TRUE'' then ''true''
      else if upper v = ''FALSE'' then ''false''
      else if upper v = ''NULL'' then []
      else
        (let v' = (if startswith v [sq] \<and> endswith v [sq]
                   then replace [sq, sq] [sq] (butlast (tl v)) else v)
         in if startswith v' ''['' \<and> endswith v' '']'' then v' else v'))"

record scanner =
  vals :: "string list"
  current :: string
  in_quotes :: bool
  in_list :: bool
  escape_next :: bool

text \<open>
  The \<open>while i < len(values_str)\<close> loop: the argument is the text from index \<open>i\<close> on;
  the look-ahead \<open>values_str[i + 1]\<close> is the head of the rest, and \<open>i += 1\<close> inside the
  doubled-quote branch skips it.
\<close>

fun scan :: "scanner \<Rightarrow> string \<Rightarrow> scanner" where
  "scan st [] = st"
| "scan st (c # rest) =
     (if escape_next st then
        scan (st\<lparr>current := current st @ [c], escape_next := False\<rparr>) rest
      else if c = backslash then
        scan (st\<lparr>escape_next := True\<rparr>) rest
      else if c = sq \<and> \<not> in_quotes st then
        scan (st\<lparr>in_quotes := True\<rparr>) rest
      else if c = sq \<and> in_quotes st then
        (case rest of
           [] \<Rightarrow> scan (st\<lparr>in_quotes := False\<rparr>) rest
         | q # rest' \<Rightarrow>
             if q = sq then scan (st\<lparr>current := current st @ [sq]\<rparr>) rest'
             else scan (st\<lparr>in_quotes := False\<rparr>) rest)
      else if c = CHR ''['' \<and> \<not> in_quotes st then
        scan (st\<lparr>in_list := True, current := current st @ [c]\<rparr>) rest
      else if c = CHR '']'' \<and> in_list st then
        scan (st\<lparr>in_list := False, current := current st @ [c]\<rparr>) rest
      else if c = CHR '','' \<and> \<not> in_quotes st \<and> \<not> in_list st then
        scan (st\<lparr>vals := vals st @ [clean_value (strip (current st))], current := []\<rparr>) rest
      else
        scan (st\<lparr>current := current st @ [c]\<rparr>) rest)"

definition parse_sql_values :: "string \<Rightarrow> string list" where
  "parse_sql_values values_str =
     (let st = scan \<lparr>vals = [], current = [], in_quotes = False, in_list = False,
                      escape_next = False\<rparr>
                    (strip (replace [nl] '' '' values_str))
      in if current st \<noteq> [] then vals st @ [clean_value (strip (current st))] else vals st)"

section \<open>The pseudo-random source\<close>

text \<open>
  Every generator seeds Python's global \<open>random\<close> module in its constructor and then only
  draws from it. The module is modelled as the infinite sequence of the draws still to
  come (a stream): drawing reads the head and leaves the tail. A seed fixes one such sequence; a
  property proved for every sequence holds for every seed.

  \<open>random.random()\<close> is read at a resolution of one hundredth (all thresholds in the
  sources are multiples of 0.01): the draw is the number of hundredths, \<open>0 \<dots> 99\<close>.
\<close>

type_synonym rng = "nat stream"

definition random_random :: "rng \<Rightarrow> nat \<times> rng" where
  "random_random r = (shd r mod 100, stl r)"

definition randint :: "int \<Rightarrow> int \<Rightarrow> rng \<Rightarrow> int \<times> rng" where
  "randint a b r = (a + int (shd r mod nat (b - a + 1)), stl r)"

definition choice :: "'a list \<Rightarrow> rng \<Rightarrow> 'a \<times> rng" where
  "choice xs r = (xs ! (shd r mod length xs), stl r)"

text \<open>
  \<open>random.sample(population, k)\<close>: \<open>k\<close> elements at distinct positions, one draw each.
  Both call sites have \<open>k \<le> len(population)\<close>.
\<close>

fun sample :: "'a list \<Rightarrow> nat \<Rightarrow> rng \<Rightarrow> 'a list \<times> rng" where
  "sample pool 0 r = ([], r)"
| "sample pool (Suc k) r =
     (let j = shd r mod length pool;
          (rest, r') = sample (take j pool @ drop (Suc j) pool) k (stl r)
      in (pool ! j # rest, r'))"

text \<open>\<open>[random.randint(a, b) for _ in range(n)]\<close>\<close>

fun randints :: "nat \<Rightarrow> int \<Rightarrow> int \<Rightarrow> rng \<Rightarrow> int list \<times> rng" where
  "randints 0 a b r = ([], r)"
| "randints (Suc n) a b r =
     (let (x, r1) = randint a b r; (xs, r2) = randints n a b r1 in (x # xs, r2))"

text \<open>A finite list of draws followed by zeros, for concrete runs.\<close>

definition draws :: "nat list \<Rightarrow> rng" where
  "draws xs = xs @- sconst 0"

section \<open>Message generator (dsbulk\_generate.py)\<close>

definition users :: "int list" where
  "users = map int [1000..<1000000]"

definition chats :: "int list" where
  "chats = map int [1000..<500000]"

text \<open>The word table of the constructor, as UTF-8 bytes.\<close>

definition common_words :: "string list" where
  "common_words =
    [
     [CHR 0xD0, CHR 0xBF, CHR 0xD1, CHR 0x80, CHR 0xD0, CHR 0xB8, CHR 0xD0, CHR 0xB2, CHR 0xD0, CHR 0xB5, CHR 0xD1, CHR 0x82],
     [CHR 0xD0, CHR 0xBA, CHR 0xD0, CHR 0xB0, CHR 0xD0, CHR 0xBA],
     [CHR 0xD0, CHR 0xB4, CHR 0xD0, CHR 0xB5, CHR 0xD0, CHR 0xBB, CHR 0xD0, CHR 0xB0],
     [CHR 0xD0, CHR 0xBD, CHR 0xD0, CHR 0xBE, CHR 0xD1, CHR 0x80, CHR 0xD0, CHR 0xBC, CHR 0xD0, CHR 0xB0, CHR 0xD0, CHR 0xBB, CHR 0xD1, CHR 0x8C, CHR 0xD0, CHR 0xBD, CHR 0xD0, CHR 0xBE],
     [CHR 0xD1, CHR 0x81, CHR 0xD0, CHR 0xBF, CHR 0xD0, CHR 0xB0, CHR 0xD1, CHR 0x81, CHR 0xD0, CHR 0xB8, CHR 0xD0, CHR 0xB1, CHR 0xD0, CHR 0xBE],
     [CHR 0xD0, CHR 0xBF, CHR 0xD0, CHR 0xBE, CHR 0xD0, CHR 0xBA, CHR 0xD0, CHR 0xB0],
     [CHR 0xD1, CHR 0x87, CHR 0xD1, CHR 0x82, CHR 0xD0, CHR 0xBE],
     [CHR 0xD0, CHR 0xB3, CHR 0xD0, CHR 0xB4, CHR 0xD0, CHR 0xB5],
     [CHR 0xD0, CHR 0xBA, CHR 0xD0, CHR 0xBE, CHR 0xD0, CHR 0xB3, CHR 0xD0, CHR 0xB4, CHR 0xD0, CHR 0xB0],
     [CHR 0xD0, CHR 0xBF, CHR 0xD0, CHR 0xBE, CHR 0xD1, CHR 0x87, CHR 0xD0, CHR 0xB5, CHR 0xD0, CHR 0xBC, CHR 0xD1, CHR 0x83],
     [CHR 0xD1, CHR 0x81, CHR 0xD0, CHR 0xB5, CHR 0xD0, CHR 0xB3, CHR 0xD0, CHR 0xBE, CHR 0xD0, CHR 0xB4, CHR 0xD0, CHR 0xBD, CHR 0xD1, CHR 0x8F],
     [CHR 0xD0, CHR 0xB7, CHR 0xD0, CHR 0xB0, CHR 0xD0, CHR 0xB2, CHR 0xD1, CHR 0x82, CHR 0xD1, CHR 0x80, CHR 0xD0, CHR 0xB0],
     [CHR 0xD0, CHR 0xB2, CHR 0xD1, CHR 0x87, CHR 0xD0, CHR 0xB5, CHR 0xD1, CHR 0x80, CHR 0xD0, CHR 0xB0],
     [CHR 0xD1, CHR 0x80, CHR 0xD0, CHR 0xB0, CHR 0xD0, CHR 0xB1, CHR 0xD0, CHR 0xBE, CHR 0xD1, CHR 0x82, CHR 0xD0, CHR 0xB0],
     [CHR 0xD0, CHR 0xB4, CHR 0xD0, CHR 0xBE, CHR 0xD0, CHR 0xBC],
     [CHR 0xD0, CHR 0xB4, CHR 0xD1, CHR 0x80, CHR 0xD1, CHR 0x83, CHR 0xD0, CHR 0xB7, CHR 0xD1, CHR 0x8C, CHR 0xD1, CHR 0x8F],
     [CHR 0xD0, CHR 0xB2, CHR 0xD1, CHR 0x81, CHR 0xD1, CHR 0x82, CHR 0xD1, CHR 0x80, CHR 0xD0, CHR 0xB5, CHR 0xD1, CHR 0x87, CHR 0xD0, CHR 0xB0],
     [CHR 0xD1, CHR 0x81, CHR 0xD0, CHR 0xBE, CHR 0xD0, CHR 0xB2, CHR 0xD0, CHR 0xB5, CHR 0xD1, CHR 0x89, CHR 0xD0, CHR 0xB0, CHR 0xD0, CHR 0xBD, CHR 0xD0, CHR 0xB8, CHR 0xD0, CHR 0xB5],
     [CHR 0xD0, CHR 0xBF, CHR 0xD1, CHR 0x80, CHR 0xD0, CHR 0xBE, CHR 0xD0, CHR 0xB5, CHR 0xD0, CHR 0xBA, CHR 0xD1, CHR 0x82],
     [CHR 0xD0, CHR 0xB7, CHR 0xD0, CHR 0xB0, CHR 0xD0, CHR 0xB4, CHR 0xD0, CHR 0xB0, CHR 0xD1, CHR 0x87, CHR 0xD0, CHR 0xB0],
     [CHR 0xD1, CHR 0x81, CHR 0xD1, CHR 0x80, CHR 0xD0, CHR 0xBE, CHR 0xD1, CHR 0x87, CHR 0xD0, CHR 0xBD, CHR 0xD0, CHR 0xBE],
     [CHR 0xD0, CHR 0xB2, CHR 0xD0, CHR 0xB0, CHR 0xD0, CHR 0xB6, CHR 0xD0, CHR 0xBD, CHR 0xD0, CHR 0xBE],
     [CHR 0xD1, CHR 0x84, CHR 0xD0, CHR 0xB0, CHR 0xD0, CHR 0xB9, CHR 0xD0, CHR 0xBB],
     [CHR 0xD1, CHR 0x81, CHR 0xD1, CHR 0x81, CHR 0xD1, CHR 0x8B, CHR 0xD0, CHR 0xBB, CHR 0xD0, CHR 0xBA, CHR 0xD0, CHR 0xB0]
    ]"

text \<open>
  \<open>str.capitalize()\<close> on UTF-8 text: an ASCII or basic Cyrillic first letter is put in
  upper case, the rest in lower case (written out for ASCII letters; the word table is
  lower case throughout).
\<close>

definition capitalize :: "string \<Rightarrow> string" where
  "capitalize s =
     (case s of
        [] \<Rightarrow> []
      | c # cs \<Rightarrow>
          (case cs of
             [] \<Rightarrow> [upper_char c]
           | d # ds \<Rightarrow>
               if c = CHR 0xD0 \<and> (0xB0::nat) \<le> of_char d \<and> of_char d \<le> (0xBF::nat)
               then CHR 0xD0 # char_of (of_char d - (0x20::nat)) # lower ds
               else if c = CHR 0xD1 \<and> (0x80::nat) \<le> of_char d \<and> of_char d \<le> (0x8F::nat)
               then CHR 0xD0 # char_of (of_char d + (0x20::nat)) # lower ds
               else upper_char c # lower cs))"

record message_row =
  chat_id :: int
  bucket :: int
  chat_msg_local_id :: int
  flags :: int
  date :: int
  update_time :: int
  author_id :: int
  text_field :: string
  kludges :: string
  forwarded :: string
  forwarded_message_ids :: string
  mentions :: string
  marked_users :: string
  ttl :: int
  deleted_for_all :: string

definition generate_message_id :: "int \<Rightarrow> int \<Rightarrow> int" where
  "generate_message_id chat local_id = local_id"

definition generate_bucket :: "int \<Rightarrow> int" where
  "generate_bucket message_id = message_id div 1000"

text \<open>\<open>flags |= b\<close> on a value whose bit \<open>b\<close> is still clear adds \<open>b\<close>.\<close>

definition generate_flags :: "rng \<Rightarrow> int \<times> rng" where
  "generate_flags r0 =
     (let (u1, r1) = random_random r0;
          (u2, r2) = random_random r1;
          (u3, r3) = random_random r2;
          (u4, r4) = random_random r3;
          (u5, r5) = random_random r4
      in ((if u1 < 80 then 1 else 0) + (if u2 < 10 then 2 else 0) + (if u3 < 2 then 4 else 0)
          + (if u4 < 15 then 8 else 0) + (if u5 < 30 then 16 else 0), r5))"

text \<open>
  \<open>datetime(2020, 1, 1).timestamp()\<close>, the default base date, read in UTC; a day is
  86400 seconds.
\<close>

definition base_date_2020 :: int where
  "base_date_2020 = 1577836800"

definition generate_timestamp :: "rng \<Rightarrow> int \<times> rng" where
  "generate_timestamp r0 =
     (let (days_ago, r1) = randint 0 (3 * 365) r0;
          (hours, r2) = randint 0 23 r1;
          (minutes, r3) = randint 0 59 r2;
          (seconds, r4) = randint 0 59 r3
      in (base_date_2020 - days_ago * 86400 + (hours * 3600 + minutes * 60 + seconds), r4))"

definition generate_text :: "rng \<Rightarrow> string \<times> rng" where
  "generate_text r0 =
     (let (word, r1) = choice common_words r0;
          (u, r2) = random_random r1;
          words = [if u < 30 then capitalize word else word];
          text = join '' '' words;
          (v, r3) = random_random r2
      in if v < 70 then (let (p, r4) = choice [''.'', ''!'', ''?''] r3 in (text @ p, r4))
         else (text, r3))"

text \<open>\<open>generate_kludges\<close> returns the empty string in its first statement.\<close>

definition generate_kludges :: string where
  "generate_kludges = []"

definition generate_forwarded_message_ids :: "rng \<Rightarrow> string \<times> rng" where
  "generate_forwarded_message_ids r0 =
     (let (u, r1) = random_random r0
      in if u < 15 then
           (let (count, r2) = randint 1 3 r1;
                (ids, r3) = randints (nat count) 1000000 9999999 r2
            in (''['' @ join '','' (map str_int ids) @ '']'', r3))
         else (''[]'', r1))"

text \<open>\<open>random.choices(types, weights=[0.7, 0.1, 0.1, 0.1], k=1)[0]\<close>\<close>

definition generate_mentions :: "rng \<Rightarrow> string \<times> rng" where
  "generate_mentions r0 =
     (let (u, r1) = random_random r0
      in ((if u < 70 then ''none'' else if u < 80 then ''all''
           else if u < 90 then ''online'' else ''user''), r1))"

definition generate_marked_users :: "int \<Rightarrow> rng \<Rightarrow> string \<times> rng" where
  "generate_marked_users author r0 =
     (let (u, r1) = random_random r0
      in if u < 20 then
           (let (picked, r2) = sample users 10 r1;
                available_users = filter (\<lambda>x. x \<noteq> author) picked;
                (count, r3) = randint 1 (min 5 (int (length available_users))) r2;
                (us, r4) = sample available_users (nat count) r3
            in (''['' @ join '','' (map str_int us) @ '']'', r4))
         else (''[]'', r1))"

definition generate_ttl :: "rng \<Rightarrow> int \<times> rng" where
  "generate_ttl r0 =
     (let (u, r1) = random_random r0
      in if u < 5 then choice [3600, 86400, 604800, 2592000] r1 else (0, r1))"

definition generate_message_row :: "int \<Rightarrow> int option \<Rightarrow> rng \<Rightarrow> message_row \<times> rng" where
  "generate_message_row message_idx chat_id_arg r0 =
     (let (chat, r1) = (case chat_id_arg of None \<Rightarrow> choice chats r0 | Some c \<Rightarrow> (c, r0));
          message_id = generate_message_id chat message_idx;
          (author, r2) = choice users r1;
          (date0, r3) = generate_timestamp r2;
          (u, r4) = random_random r3;
          (upd, r5) = (if u < 10 then (let (d, r') = randint 60 3600 r4 in (date0 + d, r'))
                       else (date0, r4));
          (txt, r6) = generate_text r5;
          kl = generate_kludges;
          (uf, r7) = random_random r6;
          fwd = (uf < 15);
          (fwd_ids, r8) = generate_forwarded_message_ids r7;
          (ment, r9) = generate_mentions r8;
          (marked, r10) = generate_marked_users author r9;
          (ttl0, r11) = generate_ttl r10;
          (ud, r12) = random_random r11;
          del = (ud < 1);
          (fl, r13) = generate_flags r12
      in (\<lparr>chat_id = chat,
           bucket = generate_bucket message_id,
           chat_msg_local_id = message_id,
           flags = fl,
           date = date0,
           update_time = upd,
           author_id = author,
           text_field = escape_csv_value (PyStr txt),
           kludges = escape_csv_value (PyStr kl),
           forwarded = lower (str_bool fwd),
           forwarded_message_ids = fwd_ids,
           mentions = ment,
           marked_users = marked,
           ttl = ttl0,
           deleted_for_all = lower (str_bool del)\<rparr>, r13))"

text \<open>
  The row loop of \<open>generate_csv_file\<close>: \<open>for i in range(count)\<close>, one \<open>writerow\<close> per
  row. The result is the rows written, in order, and the random source left.
\<close>

fun generate_rows :: "int list \<Rightarrow> int option \<Rightarrow> rng \<Rightarrow> message_row list \<times> rng" where
  "generate_rows [] chat_id_arg r = ([], r)"
| "generate_rows (i # idxs) chat_id_arg r =
     (let (row, r1) = generate_message_row i chat_id_arg r;
          (rows, r2) = generate_rows idxs chat_id_arg r1
      in (row # rows, r2))"

definition py_range :: "int \<Rightarrow> int list" where
  "py_range count = map int [0..<nat count]"

definition generate_csv_file :: "int \<Rightarrow> int option \<Rightarrow> rng \<Rightarrow> message_row list" where
  "generate_csv_file count chat_id_arg r = fst (generate_rows (py_range count) chat_id_arg r)"

subsection \<open>Buffered sink (generate\_optimized\_csv)\<close>

definition BUFFER_SIZE :: nat where
  "BUFFER_SIZE = 1000"

text \<open>
  The loop state is the buffer and the blocks handed to \<open>writer.writerows\<close> so far, each
  call one block: \<open>buffer.append(row)\<close>, then the flush once
  \<open>len(buffer) >= BUFFER_SIZE\<close>, and after the loop the flush of what is left.
\<close>

fun optimized_loop ::
  "int list \<Rightarrow> int option \<Rightarrow> rng \<Rightarrow> message_row list \<Rightarrow> message_row list list
     \<Rightarrow> message_row list \<times> message_row list list \<times> rng" where
  "optimized_loop [] chat_id_arg r buffer written = (buffer, written, r)"
| "optimized_loop (i # idxs) chat_id_arg r buffer written =
     (let (row, r1) = generate_message_row i chat_id_arg r;
          buffer1 = buffer @ [row]
      in if length buffer1 \<ge> BUFFER_SIZE
         then optimized_loop idxs chat_id_arg r1 [] (written @ [buffer1])
         else optimized_loop idxs chat_id_arg r1 buffer1 written)"

definition generate_optimized_csv :: "int \<Rightarrow> int option \<Rightarrow> rng \<Rightarrow> message_row list list" where
  "generate_optimized_csv count chat_id_arg r =
     (let (buffer, written, r1) = optimized_loop (py_range count) chat_id_arg r [] []
      in if buffer \<noteq> [] then written @ [buffer] else written)"

section \<open>Message generator for INSERT statements (generate.py)\<close>

text \<open>
  \<open>generate_message_id\<close>, \<open>generate_bucket\<close>, \<open>generate_flags\<close>, \<open>generate_timestamp\<close>,
  \<open>generate_mentions\<close> and \<open>generate_ttl\<close> of this file are the functions of the same
  names above, statement for statement. The functions that differ carry the suffix
  \<open>sql\<close>; the message keeps its values untyped by text: a \<open>bool\<close> and lists of
  integers.
\<close>

record message =
  msg_chat_id :: int
  msg_bucket :: int
  msg_chat_msg_local_id :: int
  msg_flags :: int
  msg_date :: int
  msg_update_time :: int
  msg_author_id :: int
  msg_text :: string
  msg_kludges :: string
  msg_forwarded :: bool
  msg_forwarded_message_ids :: "int list"
  msg_mentions :: string
  msg_marked_users :: "int list"
  msg_ttl :: int
  msg_deleted_for_all :: bool

text \<open>The loop \<open>for _ in range(words_count)\<close> of \<open>generate_text\<close>.\<close>

fun text_words :: "nat \<Rightarrow> rng \<Rightarrow> string list \<times> rng" where
  "text_words 0 r = ([], r)"
| "text_words (Suc n) r =
     (let (word, r1) = choice common_words r;
          (u, r2) = random_random r1;
          (words, r3) = text_words n r2
      in ((if u < 30 then capitalize word else word) # words, r3))"

definition generate_text_sql :: "rng \<Rightarrow> string \<times> rng" where
  "generate_text_sql r0 =
     (let (words_count, r1) = randint 3 50 r0;
          (words, r2) = text_words (nat words_count) r1;
          text = join '' '' words;
          (v, r3) = random_random r2
      in if v < 70 then (let (p, r4) = choice [''.'', ''!'', ''?''] r3 in (text @ p, r4))
         else (text, r3))"

text \<open>
  \<open>generate_kludges\<close> reads two things from outside the seeded source:
  \<open>uuid.uuid4()\<close>, and the MD5 digest of the text of a \<open>random.random()\<close> draw. Both
  are parameters: the identifier this call receives, and the first eight digits of the
  digest as a function of the draw. The result is the text \<open>json.dumps\<close> writes.
\<close>

definition json_opt_int :: "int option \<Rightarrow> string" where
  "json_opt_int v = (case v of None \<Rightarrow> ''null'' | Some i \<Rightarrow> str_int i)"

definition generate_kludges_sql :: "string \<Rightarrow> (nat \<Rightarrow> string) \<Rightarrow> rng \<Rightarrow> string \<times> rng" where
  "generate_kludges_sql uuid4 md5_hex8 r0 =
     (let kludge_types = [''photo'', ''video'', ''document'', ''audio'', ''voice'', ''sticker''];
          (u, r1) = random_random r0
      in if u < 30 then
           (let (media_type, r2) = choice kludge_types r1;
                (size, r3) = randint 1024 (50 * 1024 * 1024) r2;
                (h, r4) = random_random r3;
                (width, r5) = (if media_type \<in> set [''photo'', ''video'']
                               then (let (w, r') = choice [1280, 1920, 2560] r4 in (Some w, r'))
                               else (None, r4));
                (height, r6) = (if media_type \<in> set [''photo'', ''video'']
                                then (let (w, r') = choice [720, 1080, 1440] r5 in (Some w, r'))
                                else (None, r5));
                (duration, r7) = (if media_type \<in> set [''video'', ''audio'', ''voice'']
                                  then (let (d, r') = randint 1 300 r6 in (Some d, r'))
                                  else (None, r6))
            in ([CHR ''{'', dq] @ ''type'' @ [dq] @ '': '' @ [dq] @ media_type @ [dq]
                @ '', '' @ [dq] @ ''id'' @ [dq] @ '': '' @ [dq] @ uuid4 @ [dq]
                @ '', '' @ [dq] @ ''size'' @ [dq] @ '': '' @ str_int size
                @ '', '' @ [dq] @ ''url'' @ [dq] @ '': '' @ [dq] @ ''https://cdn.example.com/''
                    @ media_type @ ''/'' @ md5_hex8 h @ [dq]
                @ '', '' @ [dq] @ ''width'' @ [dq] @ '': '' @ json_opt_int width
                @ '', '' @ [dq] @ ''height'' @ [dq] @ '': '' @ json_opt_int height
                @ '', '' @ [dq] @ ''duration'' @ [dq] @ '': '' @ json_opt_int duration
                @ ''}'', r7))
         else (''{}'', r1))"

definition generate_forwarded_message_ids_sql :: "rng \<Rightarrow> int list \<times> rng" where
  "generate_forwarded_message_ids_sql r0 =
     (let (u, r1) = random_random r0
      in if u < 15 then
           (let (count, r2) = randint 1 3 r1 in randints (nat count) 1000000 9999999 r2)
         else ([], r1))"

definition generate_marked_users_sql :: "int \<Rightarrow> rng \<Rightarrow> int list \<times> rng" where
  "generate_marked_users_sql author r0 =
     (let (u, r1) = random_random r0
      in if u < 20 then
           (let (picked, r2) = sample users 10 r1;
                available_users = filter (\<lambda>x. x \<noteq> author) picked;
                (count, r3) = randint 1 (min 5 (int (length available_users))) r2
            in sample available_users (nat count) r3)
         else ([], r1))"

definition generate_message ::
  "string \<Rightarrow> (nat \<Rightarrow> string) \<Rightarrow> int \<Rightarrow> int option \<Rightarrow> rng \<Rightarrow> message \<times> rng" where
  "generate_message uuid4 md5_hex8 message_idx chat_id_arg r0 =
     (let (chat, r1) = (case chat_id_arg of None \<Rightarrow> choice chats r0 | Some c \<Rightarrow> (c, r0));
          message_id = generate_message_id chat message_idx;
          (author, r2) = choice users r1;
          (date0, r3) = generate_timestamp r2;
          (u, r4) = random_random r3;
          (upd, r5) = (if u < 10 then (let (d, r') = randint 60 3600 r4 in (date0 + d, r'))
                       else (date0, r4));
          (txt, r6) = generate_text_sql r5;
          (kl, r7) = generate_kludges_sql uuid4 md5_hex8 r6;
          (ids0, r8) = generate_forwarded_message_ids_sql r7;
          fwd = (length ids0 > 0);
          (fwd_ids, r9) = generate_forwarded_message_ids_sql r8;
          (ment, r10) = generate_mentions r9;
          (marked, r11) = generate_marked_users_sql author r10;
          (ttl0, r12) = generate_ttl r11;
          (ud, r13) = random_random r12;
          del = (ud < 1);
          (fl, r14) = generate_flags r13
      in (\<lparr>msg_chat_id = chat,
           msg_bucket = generate_bucket message_id,
           msg_chat_msg_local_id = message_id,
           msg_flags = fl,
           msg_date = date0,
           msg_update_time = upd,
           msg_author_id = author,
           msg_text = txt,
           msg_kludges = kl,
           msg_forwarded = fwd,
           msg_forwarded_message_ids = fwd_ids,
           msg_mentions = ment,
           msg_marked_users = marked,
           msg_ttl = ttl0,
           msg_deleted_for_all = del\<rparr>, r14))"

section \<open>UserToMessage generator (generate\_usertomessage.py)\<close>

definition peers :: "int list" where
  "peers = map int [1000..<500000]"

record u2m_state =
  chat_local_counter :: "(int \<times> int) \<rightharpoonup> int"
  generated_messages :: "(int \<times> int \<times> int) set"

text \<open>The state the constructor leaves: no counter, no generated key.\<close>

definition u2m_init :: u2m_state where
  "u2m_init = \<lparr>chat_local_counter = Map.empty, generated_messages = {}\<rparr>"

record u2m_row =
  user_id :: int
  peer_id :: int
  chat_local_id :: int
  u2m_flags :: int

definition get_next_chat_local_id :: "u2m_state \<Rightarrow> int \<Rightarrow> int \<Rightarrow> int \<times> u2m_state" where
  "get_next_chat_local_id st u p =
     (let key = (u, p);
          counter0 = (if key \<notin> dom (chat_local_counter st)
                      then (chat_local_counter st)(key \<mapsto> 0) else chat_local_counter st);
          counter1 = counter0(key \<mapsto> the (counter0 key) + 1)
      in (the (counter1 key), st\<lparr>chat_local_counter := counter1\<rparr>))"

definition generate_flags_u2m :: "rng \<Rightarrow> int \<times> rng" where
  "generate_flags_u2m r0 =
     (let (u1, r1) = random_random r0;
          (u2, r2) = random_random r1;
          (u3, r3) = random_random r2;
          (u4, r4) = random_random r3;
          (u5, r5) = random_random r4;
          (u6, r6) = random_random r5;
          (u7, r7) = random_random r6;
          (u8, r8) = random_random r7
      in ((if u1 < 80 then 1 else 0) + (if u2 < 10 then 2 else 0) + (if u3 < 2 then 4 else 0)
          + (if u4 < 15 then 8 else 0) + (if u5 < 30 then 16 else 0) + (if u6 < 5 then 32 else 0)
          + (if u7 < 20 then 64 else 0) + (if u8 < 1 then 128 else 0), r8))"

text \<open>
  The \<open>while True\<close> loop of \<open>generate_unique_message_key\<close>. It has no exit but its two
  \<open>return\<close> statements, so a call that never reaches one has the value \<open>None\<close>.
\<close>

partial_function (option) generate_unique_message_key ::
  "((int \<times> int) \<rightharpoonup> int) \<Rightarrow> rng \<Rightarrow> ((int \<times> int \<times> int) \<times> rng) option" where
  "generate_unique_message_key counter r =
     (case choice users r of (u, r1) \<Rightarrow>
        (case choice peers r1 of (p, r2) \<Rightarrow>
           (case counter (u, p) of
              None \<Rightarrow> Some ((u, p, 1), r2)
            | Some c \<Rightarrow>
                if c < 1000 then Some ((u, p, c + 1), r2)
                else generate_unique_message_key counter r2)))"

definition generate_record_row ::
  "u2m_state \<Rightarrow> int \<Rightarrow> int option \<Rightarrow> int option \<Rightarrow> rng \<Rightarrow> (u2m_row \<times> u2m_state \<times> rng) option" where
  "generate_record_row st record_idx user_id_arg peer_id_arg r0 =
     (case (if user_id_arg = None \<or> peer_id_arg = None
            then (case generate_unique_message_key (chat_local_counter st) r0 of
                    None \<Rightarrow> None
                  | Some ((u, p, c), r1) \<Rightarrow> Some (u, p, c, st, r1))
            else (let (c, st1) = get_next_chat_local_id st (the user_id_arg) (the peer_id_arg)
                  in Some (the user_id_arg, the peer_id_arg, c, st1, r0))) of
        None \<Rightarrow> None
      | Some (u, p, c, st1, r1) \<Rightarrow>
          (let key = (u, p);
               counter0 = (if key \<notin> dom (chat_local_counter st1)
                           then (chat_local_counter st1)(key \<mapsto> 0) else chat_local_counter st1);
               counter1 = counter0(key \<mapsto> c);
               (fl, r2) = generate_flags_u2m r1;
               dup = ((u, p, c) \<in> generated_messages st1);
               c' = (if dup then c + 1 else c);
               counter2 = (if dup then counter1(key \<mapsto> c') else counter1)
           in Some (\<lparr>user_id = u, peer_id = p, chat_local_id = c', u2m_flags = fl\<rparr>,
                    \<lparr>chat_local_counter = counter2,
                     generated_messages = insert (u, p, c') (generated_messages st1)\<rparr>,
                    r2)))"

text \<open>
  The row loop of \<open>generate_csv_file\<close>: one call of \<open>generate_record_row\<close> per index
  of \<open>range(count)\<close>, with the same \<open>user_id\<close> and \<open>peer_id\<close> arguments, on the state
  the previous call left. \<open>generate_optimized_csv\<close> makes the same calls in the same
  order, and so does \<open>generate_multiple_csv_files\<close> over its files.
\<close>

fun generate_records ::
  "u2m_state \<Rightarrow> int list \<Rightarrow> int option \<Rightarrow> int option \<Rightarrow> rng
     \<Rightarrow> (u2m_row list \<times> u2m_state \<times> rng) option" where
  "generate_records st [] user_id_arg peer_id_arg r = Some ([], st, r)"
| "generate_records st (i # idxs) user_id_arg peer_id_arg r =
     (case generate_record_row st i user_id_arg peer_id_arg r of
        None \<Rightarrow> None
      | Some (row, st1, r1) \<Rightarrow>
          (case generate_records st1 idxs user_id_arg peer_id_arg r1 of
             None \<Rightarrow> None
           | Some (rows, st2, r2) \<Rightarrow> Some (row # rows, st2, r2)))"

definition generate_u2m_csv_file ::
  "int \<Rightarrow> int option \<Rightarrow> int option \<Rightarrow> rng \<Rightarrow> u2m_row list option" where
  "generate_u2m_csv_file count user_id_arg peer_id_arg r =
     map_option fst (generate_records u2m_init (py_range count) user_id_arg peer_id_arg r)"

section \<open>PeerIds generator (generator\_chats\_peerids.py)\<close>

definition user_ids :: "int list" where
  "user_ids = map int [1000..<1000000]"

record peerid_row =
  pi_user_id :: int
  pi_chat_id :: int
  invite_timestamp :: int
  disable_for :: int
  pi_flags :: int
  inviter_id :: int
  last_read_message_id :: int
  last_message_id :: int
  last_message_ts :: int

text \<open>
  \<open>generate_timestamp\<close> of this generator starts from \<open>datetime.now()\<close>. The wall clock
  is an input of its own: the stream of readings (whole seconds since the epoch, the
  local zone at a fixed offset), one per call.
\<close>

type_synonym clock = "int stream"

definition generate_timestamp_now :: "int \<Rightarrow> clock \<Rightarrow> rng \<Rightarrow> int \<times> clock \<times> rng" where
  "generate_timestamp_now years_back clk r0 =
     (let base_date = shd clk;
          (days_ago, r1) = randint 0 (years_back * 365) r0;
          (hours, r2) = randint 0 23 r1;
          (minutes, r3) = randint 0 59 r2;
          (seconds, r4) = randint 0 59 r3
      in (base_date - days_ago * 86400 - (hours * 3600 + minutes * 60 + seconds), stl clk, r4))"

definition generate_peer_flags :: "rng \<Rightarrow> int \<times> rng" where
  "generate_peer_flags r0 =
     (let (u1, r1) = random_random r0;
          (u2, r2) = random_random r1;
          (u3, r3) = random_random r2;
          (u4, r4) = random_random r3;
          (u5, r5) = random_random r4
      in ((if u1 < 80 then 1 else 0) + (if u2 < 50 then 2 else 0) + (if u3 < 10 then 4 else 0)
          + (if u4 < 30 then 8 else 0) + (if u5 < 20 then 16 else 0), r5))"

definition generate_peerid_row :: "int \<Rightarrow> int \<Rightarrow> int \<Rightarrow> rng \<Rightarrow> peerid_row \<times> rng" where
  "generate_peerid_row user chat base_timestamp r0 =
     (let invite = base_timestamp;
          (off, r1) = randint 0 (30 * 24 * 3600) r0;
          last_ts = invite + off;
          (u, r2) = random_random r1;
          (dis, r3) = (if u < 10 then randint 0 100 r2 else (0, r2));
          (fl, r4) = generate_peer_flags r3;
          (inviter, r5) = choice user_ids r4;
          (last_read, r6) = randint 0 10000 r5;
          (last_id, r7) = randint 0 10000 r6
      in (\<lparr>pi_user_id = user,
           pi_chat_id = chat,
           invite_timestamp = invite,
           disable_for = dis,
           pi_flags = fl,
           inviter_id = inviter,
           last_read_message_id = last_read,
           last_message_id = last_id,
           last_message_ts = last_ts\<rparr>, r7))"

datatype py_error = IndexError | ZeroDivisionError

text \<open>
  The retry loop of \<open>generate_peerids_csv\<close>:
  \<open>while pair in used_pairs and attempts < 10\<close>. It returns the time stamp, the final
  value of \<open>attempts\<close> and the random source.
\<close>

function perturb :: "(int \<times> int) set \<Rightarrow> int \<Rightarrow> int \<Rightarrow> nat \<Rightarrow> rng \<Rightarrow> int \<times> nat \<times> rng" where
  "perturb used_pairs user ts attempts r =
     (if (user, ts) \<in> used_pairs \<and> attempts < 10
      then (let (d, r1) = randint 1 10 r in perturb used_pairs user (ts + d) (attempts + 1) r1)
      else (ts, attempts, r))"
  by pat_completeness auto
termination
  by (relation "measure (\<lambda>(used_pairs, user, ts, attempts, r). 10 - attempts)") auto

declare perturb.simps [simp del]

text \<open>
  The row loop of \<open>generate_peerids_csv\<close>. \<open>random.choice(chat_ids)\<close> raises
  \<open>IndexError\<close> on an empty list. Besides the rows written, the result lists the final
  value of \<open>attempts\<close> of every row.
  The progress branch, taken every \<open>chunk_size\<close> rows, reads
  \<open>metrics['start_time']\<close>, which only \<open>generate_chats_csv\<close> sets; it is left out, so
  the rows of the model are those of a run that gets past it, and a run that stops there
  has written a prefix of them.
\<close>

fun peerids_loop ::
  "int list \<Rightarrow> int list \<Rightarrow> (int \<times> int) set \<Rightarrow> clock \<Rightarrow> rng
     \<Rightarrow> py_error + (peerid_row list \<times> nat list)" where
  "peerids_loop [] chat_ids used_pairs clk r = Inr ([], [])"
| "peerids_loop (i # idxs) chat_ids used_pairs clk r0 =
     (let (user, r1) = choice user_ids r0
      in if chat_ids = [] then Inl IndexError
         else
           (let (chat, r2) = choice chat_ids r1;
                (invite_ts, clk1, r3) = generate_timestamp_now 3 clk r2;
                max_offset = 180 * 24 * 3600;
                (off, r4) = randint 0 max_offset r3;
                (last_ts, attempts, r5) = perturb used_pairs user (invite_ts + off) 0 r4;
                used_pairs1 = insert (user, last_ts) used_pairs;
                (row, r6) = generate_peerid_row user chat invite_ts r5;
                row1 = row\<lparr>last_message_ts := last_ts\<rparr>
            in (case peerids_loop idxs chat_ids used_pairs1 clk1 r6 of
                  Inl e \<Rightarrow> Inl e
                | Inr (rows, atts) \<Rightarrow> Inr (row1 # rows, attempts # atts))))"

definition generate_peerids_csv ::
  "int \<Rightarrow> int list \<Rightarrow> clock \<Rightarrow> rng \<Rightarrow> py_error + (peerid_row list \<times> nat list)" where
  "generate_peerids_csv count chat_ids clk r = peerids_loop (py_range count) chat_ids {} clk r"

subsection \<open>generate\_optimized\_peerids\<close>

record opt_state =
  total_generated :: int
  buffer :: "peerid_row list"
  written :: "peerid_row list"
  source :: rng

text \<open>
  The inner loop \<open>for user_idx in range(users_in_chat)\<close>, the argument counting the
  iterations left; \<open>break\<close> returns the state as it is. \<open>writer.writerows(buffer)\<close>
  appends the buffer to the file.
\<close>

fun users_loop :: "nat \<Rightarrow> int \<Rightarrow> int \<Rightarrow> int \<Rightarrow> opt_state \<Rightarrow> opt_state" where
  "users_loop 0 count chat base_ts st = st"
| "users_loop (Suc n) count chat base_ts st =
     (if total_generated st \<ge> count then st
      else
        (let (user, r1) = choice user_ids (source st);
             (d1, r2) = randint 0 (7 * 24 * 3600) r1;
             invite_ts = base_ts + d1;
             (d2, r3) = randint 0 (180 * 24 * 3600) r2;
             last_ts = invite_ts + d2;
             (row, r4) = generate_peerid_row user chat invite_ts r3;
             row1 = row\<lparr>last_message_ts := last_ts\<rparr>;
             buffer1 = buffer st @ [row1];
             total1 = total_generated st + 1;
             st1 = (if length buffer1 \<ge> 1000
                    then st\<lparr>total_generated := total1, buffer := [],
                            written := written st @ buffer1, source := r4\<rparr>
                    else st\<lparr>total_generated := total1, buffer := buffer1, source := r4\<rparr>)
         in users_loop n count chat base_ts st1))"

text \<open>
  The outer loop \<open>for chat_idx, chat_id in enumerate(chat_ids)\<close>, the list argument
  holding the chats left and \<open>chat_idx\<close> the index of its head.
\<close>

fun chats_loop ::
  "int list \<Rightarrow> nat \<Rightarrow> nat \<Rightarrow> int \<Rightarrow> int \<Rightarrow> clock \<Rightarrow> opt_state \<Rightarrow> opt_state" where
  "chats_loop [] chat_idx len_chat_ids count records_per_chat clk st = st"
| "chats_loop (chat # rest) chat_idx len_chat_ids count records_per_chat clk st =
     (if total_generated st \<ge> count then st
      else
        (let users_in_chat0 = min records_per_chat (count - total_generated st);
             (users_in_chat, r1) =
               (if int chat_idx < int len_chat_ids - 1
                then randint 1 (records_per_chat * 2) (source st)
                else (users_in_chat0, source st));
             (base_ts, clk1, r2) = generate_timestamp_now 3 clk r1;
             st1 = users_loop (nat users_in_chat) count chat base_ts (st\<lparr>source := r2\<rparr>)
         in chats_loop rest (Suc chat_idx) len_chat_ids count records_per_chat clk1 st1))"

definition generate_optimized_peerids ::
  "int \<Rightarrow> int list \<Rightarrow> int \<Rightarrow> clock \<Rightarrow> rng \<Rightarrow> py_error + peerid_row list" where
  "generate_optimized_peerids count chat_ids users_per_chat clk r =
     (if chat_ids = [] then Inl ZeroDivisionError
      else
        (let records_per_chat = max 1 (count div int (length chat_ids));
             st = chats_loop chat_ids 0 (length chat_ids) count records_per_chat clk
                    \<lparr>total_generated = 0, buffer = [], written = [], source = r\<rparr>
         in Inr (if buffer st \<noteq> [] then written st @ buffer st else written st)))"

section \<open>Notions used in the statements\<close>

text \<open>A field in double quotes, every double quote inside written twice.\<close>

definition quoted :: "string \<Rightarrow> string" where
  "quoted s = [dq] @ concat (map (\<lambda>c. if c = dq then [dq, dq] else [c]) s) @ [dq]"


text \<open>
  The number of rows generated so far for a pair: the counter of the pair, zero for a pair
  without one.
\<close>

definition pair_count :: "((int \<times> int) \<rightharpoonup> int) \<Rightarrow> int \<times> int \<Rightarrow> int" where
  "pair_count counter key = (case counter key of None \<Rightarrow> 0 | Some c \<Rightarrow> c)"

definition cnt :: "u2m_state \<Rightarrow> int \<times> int \<Rightarrow> int" where
  "cnt st key = (case chat_local_counter st key of None \<Rightarrow> 0 | Some c \<Rightarrow> c)"


text \<open>
  The keys generated so far are exactly the ids \<open>1 \<dots> n\<close> of every pair, \<open>n\<close> its
  counter.
\<close>

definition keys_counted :: "u2m_state \<Rightarrow> bool" where
  "keys_counted st =
     (generated_messages st = {(u, p, c). 1 \<le> c \<and> c \<le> cnt st (u, p)}
      \<and> (\<forall>key. 0 \<le> cnt st key))"


text \<open>The pair that the \<open>j\<close>-th iteration of the allocation loop draws.\<close>

definition drawn_pair :: "rng \<Rightarrow> nat \<Rightarrow> int \<times> int" where
  "drawn_pair r j = (fst (choice users (sdrop (2 * j) r)), fst (choice peers (stl (sdrop (2 * j) r))))"


text \<open>The counter in which every pair of a user and a peer has reached the cap.\<close>

definition full_counter :: "(int \<times> int) \<rightharpoonup> int" where
  "full_counter = (\<lambda>(u, p). if u \<in> set users \<and> p \<in> set peers then Some 1000 else None)"

text \<open>The key of a PeerIds row, and its two time stamps.\<close>

definition pair_of :: "peerid_row \<Rightarrow> int \<times> int" where
  "pair_of row = (pi_user_id row, last_message_ts row)"

definition timestamps_of :: "peerid_row \<Rightarrow> int \<times> int" where
  "timestamps_of row = (invite_timestamp row, last_message_ts row)"


text \<open>Every row written or buffered has its last message no earlier than its invitation.\<close>

definition rows_ordered :: "opt_state \<Rightarrow> bool" where
  "rows_ordered st = (\<forall>row\<in>set (written st @ buffer st). invite_timestamp row \<le> last_message_ts row)"


section \<open>Facts about the random source and the id tables\<close>

lemma shd_draws_Cons: "shd (draws (x # xs)) = x"
  by (simp add: draws_def)

lemma stl_draws_Cons: "stl (draws (x # xs)) = draws xs"
  by (simp add: draws_def)

lemma shd_draws_Nil: "shd (draws []) = 0"
  by (simp add: draws_def)

lemma stl_draws_Nil: "stl (draws []) = draws []"
  by (simp add: draws_def)

lemmas draws_simps = shd_draws_Cons stl_draws_Cons shd_draws_Nil stl_draws_Nil

lemma length_users: "length users = 999000"
  unfolding users_def by (simp del: upt_rec_numeral)

lemma nth_users: "k < 999000 \<Longrightarrow> users ! k = 1000 + int k"
  unfolding users_def by (simp del: upt_rec_numeral)

lemma length_peers: "length peers = 499000"
  unfolding peers_def by (simp del: upt_rec_numeral)

lemma nth_peers: "k < 499000 \<Longrightarrow> peers ! k = 1000 + int k"
  unfolding peers_def by (simp del: upt_rec_numeral)

lemma length_chats: "length chats = 499000"
  unfolding chats_def by (simp del: upt_rec_numeral)

lemma nth_chats: "k < 499000 \<Longrightarrow> chats ! k = 1000 + int k"
  unfolding chats_def by (simp del: upt_rec_numeral)

lemma choice_users: "choice users r = (1000 + int (shd r mod 999000), stl r)"
  by (simp add: choice_def length_users nth_users)

lemma choice_chats: "choice chats r = (1000 + int (shd r mod 499000), stl r)"
  by (simp add: choice_def length_chats nth_chats)


section \<open>Properties of the encoder and the tokenizer\<close>

lemma replace_dq_doubles:
  "replace [dq] [dq, dq] s = concat (map (\<lambda>c. if c = dq then [dq, dq] else [c]) s)"
proof (induction s)
  case Nil
  show ?case by (simp add: replace.simps)
next
  case (Cons c s)
  have "replace [dq] [dq, dq] (c # s)
      = (if c = dq then [dq, dq] @ replace [dq] [dq, dq] s else c # replace [dq] [dq, dq] s)"
    by (simp add: replace.simps [of "[dq]" "[dq, dq]" "c # s"])
  with Cons show ?case by simp
qed

lemma strip_braces:
  assumes "startswith s ''{''" and "endswith s ''}''"
  shows "strip s = s"
proof -
  from assms(1) obtain t where s: "s = CHR ''{'' # t"
    by (auto simp: startswith_def prefix_def)
  from assms(2) obtain u where u: "s = u @ ''}''"
    by (auto simp: endswith_def suffix_def)
  have a: "dropWhile isspace s = s"
    using s by (simp add: isspace_def)
  have "rev s = CHR ''}'' # rev u" using u by simp
  then have b: "dropWhile isspace (rev s) = rev s"
    by (simp add: isspace_def)
  show ?thesis by (simp add: strip_def a b)
qed


text \<open>
  Claim C6. The record encoder returns a string that contains a comma, a newline or a
  double quote wrapped in double quotes with the double quotes inside doubled; a string
  that begins with an opening and ends with a closing brace is quoted in the same way
  whatever else it contains. The two strings of the scenario encode as stated.
\<close>

theorem escape_csv_value_quotes:
  "(CHR '','' \<in> set s \<or> nl \<in> set s \<or> dq \<in> set s \<longrightarrow> escape_csv_value (PyStr s) = quoted s)
   \<and> (startswith s ''{'' \<and> endswith s ''}'' \<longrightarrow> escape_csv_value (PyStr s) = quoted s)
   \<and> escape_csv_value (PyStr (''He said '' @ [dq] @ ''go'' @ [dq] @ '', now''))
       = [dq] @ ''He said '' @ [dq, dq] @ ''go'' @ [dq, dq] @ '', now'' @ [dq]
   \<and> escape_csv_value (PyStr (''{'' @ [dq] @ ''a'' @ [dq] @ '':1}''))
       = [dq] @ ''{'' @ [dq, dq] @ ''a'' @ [dq, dq] @ '':1}'' @ [dq]"
proof (intro conjI impI)
  assume "CHR '','' \<in> set s \<or> nl \<in> set s \<or> dq \<in> set s"
  then show "escape_csv_value (PyStr s) = quoted s"
    by (simp add: escape_csv_value_def quoted_def replace_dq_doubles)
next
  assume "startswith s ''{'' \<and> endswith s ''}''"
  then show "escape_csv_value (PyStr s) = quoted s"
    by (simp add: escape_csv_value_def quoted_def replace_dq_doubles strip_braces)
next
  show "escape_csv_value (PyStr (''He said '' @ [dq] @ ''go'' @ [dq] @ '', now''))
       = [dq] @ ''He said '' @ [dq, dq] @ ''go'' @ [dq, dq] @ '', now'' @ [dq]"
    by code_simp
next
  show "escape_csv_value (PyStr (''{'' @ [dq] @ ''a'' @ [dq] @ '':1}''))
       = [dq] @ ''{'' @ [dq, dq] @ ''a'' @ [dq, dq] @ '':1}'' @ [dq]"
    by code_simp
qed

theorem escape_csv_value_quotes_witness:
  "CHR '','' \<in> set ''a,b'' \<and> escape_csv_value (PyStr ''a,b'') = [dq] @ ''a,b'' @ [dq]
   \<and> startswith ''{x}'' ''{'' \<and> endswith ''{x}'' ''}''
   \<and> escape_csv_value (PyStr ''{x}'') = [dq] @ ''{x}'' @ [dq]"
proof -
  have h1: "CHR '','' \<in> set ''a,b''" by simp
  have h2: "startswith ''{x}'' ''{'' \<and> endswith ''{x}'' ''}''"
    by (simp add: startswith_def endswith_def suffix_def)
  have q1: "quoted ''a,b'' = [dq] @ ''a,b'' @ [dq]" by (simp add: quoted_def)
  have q2: "quoted ''{x}'' = [dq] @ ''{x}'' @ [dq]" by (simp add: quoted_def)
  from escape_csv_value_quotes [of "''a,b''"] h1
  have a: "escape_csv_value (PyStr ''a,b'') = quoted ''a,b''" by blast
  from escape_csv_value_quotes [of "''{x}''"] h2
  have b: "escape_csv_value (PyStr ''{x}'') = quoted ''{x}''" by blast
  show ?thesis using h1 h2 a b q1 q2 by (simp only: simp_thms)
qed


text \<open>
  Claim C5. The tokenizer turns the value tuple of the scenario into exactly five
  values: the number, the string with its doubled quotes collapsed, the bracketed list as
  one token, \<open>true\<close> and the empty value.
\<close>

theorem parse_sql_values_scenario:
  "parse_sql_values (''1, '' @ [sq] @ ''O'' @ [sq, sq] @ ''Brien said '' @ [sq, sq] @ ''hi''
        @ [sq, sq, sq] @ '', [10,20,30], TRUE, NULL'')
     = [''1'', ''O'' @ [sq] @ ''Brien said '' @ [sq] @ ''hi'' @ [sq], ''[10,20,30]'', ''true'', []]"
  by code_simp


section \<open>Properties of the Message generator\<close>

lemma lower_str_bool: "lower (str_bool b) = (if b then ''true'' else ''false'')"
proof (cases b)
  case True
  have "lower ''True'' = ''true''" by code_simp
  with True show ?thesis by (simp add: str_bool_def)
next
  case False
  have "lower ''False'' = ''false''" by code_simp
  with False show ?thesis by (simp add: str_bool_def)
qed

lemma length_generate_rows: "length (fst (generate_rows idxs c r)) = length idxs"
  by (induction idxs arbitrary: r) (simp_all add: split_beta Let_def)

lemma optimized_loop_inv:
  assumes "optimized_loop idxs c r buf blocks = (buf', blocks', r')"
    and "length buf < BUFFER_SIZE"
  shows "concat blocks' @ buf' = concat blocks @ buf @ fst (generate_rows idxs c r)
       \<and> length buf' < BUFFER_SIZE
       \<and> (\<exists>new. blocks' = blocks @ new \<and> (\<forall>b\<in>set new. length b = BUFFER_SIZE))"
  using assms
proof (induction idxs arbitrary: r buf blocks)
  case Nil
  then show ?case by simp
next
  case (Cons i idxs)
  obtain row r1 where g: "generate_message_row i c r = (row, r1)"
    by (cases "generate_message_row i c r")
  show ?case
  proof (cases "length (buf @ [row]) \<ge> BUFFER_SIZE")
    case True
    with Cons.prems g have run: "optimized_loop idxs c r1 [] (blocks @ [buf @ [row]]) = (buf', blocks', r')"
      by (simp add: Let_def)
    have len: "length (buf @ [row]) = BUFFER_SIZE"
      using True Cons.prems(2) by simp
    have e: "length ([]::message_row list) < BUFFER_SIZE" by (simp add: BUFFER_SIZE_def)
    from Cons.IH [OF run e] obtain new where
      a: "concat blocks' @ buf' = concat (blocks @ [buf @ [row]]) @ [] @ fst (generate_rows idxs c r1)"
      and b: "length buf' < BUFFER_SIZE"
      and n: "blocks' = (blocks @ [buf @ [row]]) @ new" "\<forall>b\<in>set new. length b = BUFFER_SIZE"
      by blast
    have "blocks' = blocks @ ((buf @ [row]) # new) \<and> (\<forall>b\<in>set ((buf @ [row]) # new). length b = BUFFER_SIZE)"
      using n len by simp
    then have ex: "\<exists>new. blocks' = blocks @ new \<and> (\<forall>b\<in>set new. length b = BUFFER_SIZE)"
      by blast
    from a g have "concat blocks' @ buf' = concat blocks @ buf @ fst (generate_rows (i # idxs) c r)"
      by (simp add: split_beta Let_def)
    with b ex show ?thesis by blast
  next
    case False
    with Cons.prems g have run: "optimized_loop idxs c r1 (buf @ [row]) blocks = (buf', blocks', r')"
      by (simp add: Let_def)
    from False have e: "length (buf @ [row]) < BUFFER_SIZE" by simp
    from Cons.IH [OF run e] obtain new where
      a: "concat blocks' @ buf' = concat blocks @ (buf @ [row]) @ fst (generate_rows idxs c r1)"
      and b: "length buf' < BUFFER_SIZE"
      and n: "blocks' = blocks @ new" "\<forall>b\<in>set new. length b = BUFFER_SIZE"
      by blast
    from a g have "concat blocks' @ buf' = concat blocks @ buf @ fst (generate_rows (i # idxs) c r)"
      by (simp add: split_beta Let_def)
    with b n show ?thesis by blast
  qed
qed

lemma length_concat_uniform: "\<forall>b\<in>set bs. length b = n \<Longrightarrow> length (concat bs) = n * length bs"
  by (induction bs) simp_all

lemma length_py_range: "length (py_range count) = nat count"
  by (simp add: py_range_def)





lemma bucket_generate_message_row:
  "bucket (fst (generate_message_row i c r)) = i div 1000
   \<and> chat_msg_local_id (fst (generate_message_row i c r)) = i"
  by (simp add: generate_message_row_def Let_def split_beta generate_bucket_def
      generate_message_id_def)

lemma set_generate_rows:
  "row \<in> set (fst (generate_rows idxs c r)) \<Longrightarrow> \<exists>i r'. i \<in> set idxs \<and> row = fst (generate_message_row i c r')"
proof (induction idxs arbitrary: r)
  case Nil
  then show ?case by simp
next
  case (Cons a idxs)
  from Cons.prems have "row = fst (generate_message_row a c r)
      \<or> row \<in> set (fst (generate_rows idxs c (snd (generate_message_row a c r))))"
    by (simp add: split_beta Let_def)
  then show ?case
  proof
    assume "row = fst (generate_message_row a c r)"
    then show ?thesis by auto
  next
    assume "row \<in> set (fst (generate_rows idxs c (snd (generate_message_row a c r))))"
    from Cons.IH [OF this] show ?thesis by auto
  qed
qed

lemma concat_generate_optimized_csv:
  "concat (generate_optimized_csv count c r) = generate_csv_file count c r"
proof -
  obtain buf blocks r1 where
    run: "optimized_loop (py_range count) c r [] [] = (buf, blocks, r1)"
    by (cases "optimized_loop (py_range count) c r [] []") auto
  have e: "length ([]::message_row list) < BUFFER_SIZE" by (simp add: BUFFER_SIZE_def)
  from optimized_loop_inv [OF run e] have
    a: "concat blocks @ buf = fst (generate_rows (py_range count) c r)"
    by simp
  show ?thesis
  proof (cases "buf = []")
    case True
    with a have "concat blocks = fst (generate_rows (py_range count) c r)" by simp
    with run True show ?thesis
      by (simp add: generate_optimized_csv_def generate_csv_file_def)
  next
    case False
    with run a show ?thesis
      by (simp add: generate_optimized_csv_def generate_csv_file_def)
  qed
qed

text \<open>
  Claim C4. In every row the Message generator writes, in the plain and in the buffered
  mode, \<open>bucket\<close> is \<open>chat_msg_local_id\<close> divided by 1000, rounded down.
\<close>

theorem bucket_floor_division:
  "(\<forall>row\<in>set (generate_csv_file count c r). bucket row = chat_msg_local_id row div 1000)
   \<and> (\<forall>row\<in>set (concat (generate_optimized_csv count c r)).
          bucket row = chat_msg_local_id row div 1000)"
proof -
  have "bucket row = chat_msg_local_id row div 1000"
    if "row \<in> set (generate_csv_file count c r)" for row
  proof -
    from that set_generate_rows [of row "py_range count" c r]
    obtain i r' where "row = fst (generate_message_row i c r')"
      by (auto simp: generate_csv_file_def)
    then show ?thesis by (simp add: bucket_generate_message_row)
  qed
  then show ?thesis by (simp add: concat_generate_optimized_csv)
qed

theorem bucket_floor_division_witness:
  "generate_csv_file 1 (Some 7) (draws []) ! 0 \<in> set (generate_csv_file 1 (Some 7) (draws []))
   \<and> bucket (generate_csv_file 1 (Some 7) (draws []) ! 0)
       = chat_msg_local_id (generate_csv_file 1 (Some 7) (draws []) ! 0) div 1000
   \<and> chat_msg_local_id (generate_csv_file 1 (Some 7) (draws []) ! 0) = 0"
proof -
  have len: "length (generate_csv_file 1 (Some 7) (draws [])) = 1"
    by (simp add: generate_csv_file_def length_generate_rows length_py_range)
  then have m: "generate_csv_file 1 (Some 7) (draws []) ! 0 \<in> set (generate_csv_file 1 (Some 7) (draws []))"
    by simp
  have r: "py_range 1 = [0]" by (simp add: py_range_def)
  have z: "chat_msg_local_id (generate_csv_file 1 (Some 7) (draws []) ! 0) = 0"
    by (simp add: generate_csv_file_def r split_beta Let_def bucket_generate_message_row)
  from bucket_floor_division [of 1 "Some 7" "draws []"] m z show ?thesis by blast
qed

text \<open>
  Claim C9. With the buffer of 1000 rows and 2500 rows to generate, the buffered mode
  hands three blocks to the writer, of 1000, 1000 and 500 rows, and the blocks together
  are the generated rows, each once, in the order of generation.
\<close>

theorem optimized_sink_2500:
  "map length (generate_optimized_csv 2500 c r) = [1000, 1000, 500]
   \<and> concat (generate_optimized_csv 2500 c r) = generate_csv_file 2500 c r"
proof -
  obtain buf blocks r1 where
    run: "optimized_loop (py_range 2500) c r [] [] = (buf, blocks, r1)"
    by (cases "optimized_loop (py_range 2500) c r [] []") auto
  have e: "length ([]::message_row list) < BUFFER_SIZE" by (simp add: BUFFER_SIZE_def)
  from optimized_loop_inv [OF run e] have
    a: "concat blocks @ buf = fst (generate_rows (py_range 2500) c r)"
    and b: "length buf < 1000"
    and n: "\<forall>b\<in>set blocks. length b = 1000"
    unfolding BUFFER_SIZE_def by (simp_all only: concat.simps append_Nil) blast+
  have "length (concat blocks @ buf) = 2500"
    by (simp only: a length_generate_rows length_py_range)
  then have tot: "1000 * length blocks + length buf = 2500"
    using length_concat_uniform [OF n] by simp
  from tot b have "length blocks < 3" and "1 < length blocks"
    by linarith+
  then have lw: "length blocks = 2"
    by linarith
  with tot have lb: "length buf = 500"
    by simp
  from lw obtain b1 b2 where w: "blocks = [b1, b2]"
    by (cases blocks; cases "tl blocks"; cases "tl (tl blocks)") auto
  from lb have ne: "buf \<noteq> []" by auto
  have res: "generate_optimized_csv 2500 c r = blocks @ [buf]"
    using run ne by (simp add: generate_optimized_csv_def)
  have "map length (blocks @ [buf]) = [1000, 1000, 500]"
    using n w lb by simp
  moreover have "concat (blocks @ [buf]) = generate_csv_file 2500 c r"
    using a by (simp add: generate_csv_file_def)
  ultimately show ?thesis by (simp only: res)
qed

lemmas message_run_simps = draws_simps choice_users choice_chats
  generate_message_row_def generate_message_id_def generate_bucket_def generate_timestamp_def
  generate_text_def generate_kludges_def generate_forwarded_message_ids_def generate_mentions_def
  generate_marked_users_def generate_ttl_def generate_flags_def random_random_def randint_def
  lower_str_bool Let_def choice_def common_words_def join_def capitalize_def
  escape_csv_value_def startswith_def endswith_def strip_def isspace_def upper_char_def
  generate_message_def generate_text_sql_def generate_kludges_sql_def
  generate_forwarded_message_ids_sql_def generate_marked_users_sql_def


lemma text_words_3:
  "text_words 3 r = text_words (Suc (Suc (Suc 0))) r"
  by (simp add: numeral_3_eq_3)

text \<open>
  Claim C3 does not hold of the code. In dsbulk\_generate.py \<open>forwarded\<close> is a draw of
  its own, and in generate.py it is the length of a first list while the row carries a
  second one. At the draws below both generators return a row with \<open>forwarded\<close> true and
  no forwarded id.
\<close>

theorem forwarded_not_derived:
  "forwarded (fst (generate_message_row 0 (Some 1000)
      (draws [0, 0, 0, 0, 0, 50, 0, 50, 99, 0, 99, 0, 99, 99, 99]))) = ''true''
   \<and> forwarded_message_ids (fst (generate_message_row 0 (Some 1000)
      (draws [0, 0, 0, 0, 0, 50, 0, 50, 99, 0, 99, 0, 99, 99, 99]))) = ''[]''
   \<and> msg_forwarded (fst (generate_message uuid4 md5_hex8 0 (Some 1000)
      (draws [0, 0, 0, 0, 0, 50, 0, 0, 50, 0, 50, 0, 50, 99, 99, 0, 0, 0, 99, 0, 99, 99, 99])))
   \<and> msg_forwarded_message_ids (fst (generate_message uuid4 md5_hex8 0 (Some 1000)
      (draws [0, 0, 0, 0, 0, 50, 0, 0, 50, 0, 50, 0, 50, 99, 99, 0, 0, 0, 99, 0, 99, 99, 99]))) = []"
  by (simp add: message_run_simps text_words_3)

section \<open>Properties of the UserToMessage generator\<close>

lemma generate_unique_message_key_some:
  assumes "generate_unique_message_key counter r = Some y"
  shows "case y of ((u, p, c), r1) \<Rightarrow>
        c = (case counter (u, p) of None \<Rightarrow> 0 | Some c0 \<Rightarrow> c0) + 1
        \<and> (case counter (u, p) of None \<Rightarrow> 0 | Some c0 \<Rightarrow> c0) < 1000"
proof (rule generate_unique_message_key.raw_induct
    [where P = "\<lambda>counter r y. case y of ((u, p, c), r1) \<Rightarrow>
        c = (case counter (u, p) of None \<Rightarrow> 0 | Some c0 \<Rightarrow> c0) + 1
        \<and> (case counter (u, p) of None \<Rightarrow> 0 | Some c0 \<Rightarrow> c0) < (1000::int)", OF _ assms])
  fix f :: "((int \<times> int) \<rightharpoonup> int) \<Rightarrow> rng \<Rightarrow> ((int \<times> int \<times> int) \<times> rng) option"
    and counter r y
  assume IH: "\<And>counter r y. f counter r = Some y \<Longrightarrow>
      (case y of ((u, p, c), r1) \<Rightarrow>
        c = (case counter (u, p) of None \<Rightarrow> 0 | Some c0 \<Rightarrow> c0) + 1
        \<and> (case counter (u, p) of None \<Rightarrow> 0 | Some c0 \<Rightarrow> c0) < (1000::int))"
    and body: "(case choice users r of (u, r1) \<Rightarrow>
        (case choice peers r1 of (p, r2) \<Rightarrow>
           (case counter (u, p) of
              None \<Rightarrow> Some ((u, p, 1), r2)
            | Some c \<Rightarrow> if c < 1000 then Some ((u, p, c + 1), r2) else f counter r2))) = Some y"
  obtain u0 ra where a: "choice users r = (u0, ra)" by (cases "choice users r")
  obtain p0 rb where b: "choice peers ra = (p0, rb)" by (cases "choice peers ra")
  show "case y of ((u, p, c), r1) \<Rightarrow>
        c = (case counter (u, p) of None \<Rightarrow> 0 | Some c0 \<Rightarrow> c0) + 1
        \<and> (case counter (u, p) of None \<Rightarrow> 0 | Some c0 \<Rightarrow> c0) < 1000"
  proof (cases "counter (u0, p0)")
    case None
    with body a b show ?thesis by auto
  next
    case (Some c0)
    show ?thesis
    proof (cases "c0 < 1000")
      case True
      with body a b Some show ?thesis by auto
    next
      case False
      with body a b Some have "f counter rb = Some y" by simp
      from IH [OF this] show ?thesis .
    qed
  qed
qed

lemma generate_unique_message_key_result:
  assumes "generate_unique_message_key counter r = Some ((u, p, c), r1)"
  shows "c = (case counter (u, p) of None \<Rightarrow> 0 | Some c0 \<Rightarrow> c0) + 1
     \<and> (case counter (u, p) of None \<Rightarrow> 0 | Some c0 \<Rightarrow> c0) < 1000"
  using generate_unique_message_key_some [OF assms] by simp

lemma keys_counted_update:
  assumes "keys_counted st"
  shows "keys_counted \<lparr>chat_local_counter = (chat_local_counter st)((u, p) \<mapsto> cnt st (u, p) + 1),
                        generated_messages = insert (u, p, cnt st (u, p) + 1) (generated_messages st)\<rparr>"
proof -
  define st2 where "st2 = \<lparr>chat_local_counter = (chat_local_counter st)((u, p) \<mapsto> cnt st (u, p) + 1),
              generated_messages = insert (u, p, cnt st (u, p) + 1) (generated_messages st)\<rparr>"
  have c: "cnt st2 key = (if key = (u, p) then cnt st (u, p) + 1 else cnt st key)" for key
    by (simp add: cnt_def st2_def)
  have gm: "generated_messages st2 = insert (u, p, cnt st (u, p) + 1) (generated_messages st)"
    by (simp add: st2_def)
  from assms have g: "generated_messages st = {(u, p, c). 1 \<le> c \<and> c \<le> cnt st (u, p)}"
    unfolding keys_counted_def by blast
  from assms have n: "0 \<le> cnt st key" for key
    unfolding keys_counted_def by blast
  have "generated_messages st2 = {(u, p, c). 1 \<le> c \<and> c \<le> cnt st2 (u, p)}"
    using n [of "(u, p)"] by (auto simp: gm g c split: if_splits)
  moreover have "0 \<le> cnt st2 key" for key
    using n [of key] n [of "(u, p)"] by (simp add: c)
  then have "\<forall>key. 0 \<le> cnt st2 key" by blast
  ultimately have "keys_counted st2" unfolding keys_counted_def by blast
  then show ?thesis by (simp only: st2_def)
qed

lemma generate_record_row_step:
  assumes "generate_record_row st i uo po r = Some (row, st', r')" and "keys_counted st"
  shows "chat_local_id row = cnt st (user_id row, peer_id row) + 1
       \<and> chat_local_counter st' = (chat_local_counter st)((user_id row, peer_id row) \<mapsto> chat_local_id row)
       \<and> keys_counted st'
       \<and> (uo = None \<or> po = None \<longrightarrow> cnt st (user_id row, peer_id row) < 1000)
       \<and> (uo \<noteq> None \<and> po \<noteq> None \<longrightarrow> user_id row = the uo \<and> peer_id row = the po)"
proof (cases "uo = None \<or> po = None")
  case True
  with assms(1) obtain u p c r1 where
    g: "generate_unique_message_key (chat_local_counter st) r = Some ((u, p, c), r1)"
    by (auto simp: generate_record_row_def split: option.splits)
  from generate_unique_message_key_result [OF g]
  have c: "c = cnt st (u, p) + 1" and lt: "cnt st (u, p) < 1000"
    by (simp_all add: cnt_def)
  have nd: "(u, p, c) \<notin> generated_messages st"
    using assms(2) c by (auto simp: keys_counted_def)
  from assms(1) True g nd have
    row: "row = \<lparr>user_id = u, peer_id = p, chat_local_id = c, u2m_flags = fst (generate_flags_u2m r1)\<rparr>"
    and st': "st' = \<lparr>chat_local_counter = (chat_local_counter st)((u, p) \<mapsto> c),
                     generated_messages = insert (u, p, c) (generated_messages st)\<rparr>"
    by (auto simp: generate_record_row_def Let_def split_beta split: if_splits)
  have kc: "keys_counted st'"
    using assms(2) c keys_counted_update [of st u p] by (simp add: st')
  show ?thesis using True row st' c lt kc by auto
next
  case False
  then obtain u p where uo: "uo = Some u" and po: "po = Some p" by auto
  define c where "c = cnt st (u, p) + 1"
  have gn: "get_next_chat_local_id st u p = (c, st\<lparr>chat_local_counter := (chat_local_counter st)((u, p) \<mapsto> c)\<rparr>)"
    by (auto simp: get_next_chat_local_id_def Let_def c_def cnt_def split: option.splits)
  have nd: "(u, p, c) \<notin> generated_messages st"
    using assms(2) c_def by (auto simp: keys_counted_def)
  from assms(1) uo po gn nd have
    row: "row = \<lparr>user_id = u, peer_id = p, chat_local_id = c, u2m_flags = fst (generate_flags_u2m r)\<rparr>"
    and st': "st' = \<lparr>chat_local_counter = (chat_local_counter st)((u, p) \<mapsto> c),
                     generated_messages = insert (u, p, c) (generated_messages st)\<rparr>"
    by (auto simp: generate_record_row_def Let_def split_beta split: if_splits)
  have kc: "keys_counted st'"
    using assms(2) c_def keys_counted_update [of st u p] by (simp add: st')
  show ?thesis using uo po row st' c_def kc by auto
qed


lemma generate_records_inv:
  assumes "generate_records st idxs uo po r = Some (rows, st', r')" and "keys_counted st"
  shows "keys_counted st'
       \<and> map chat_local_id (filter (\<lambda>row. (user_id row, peer_id row) = key) rows)
           = [cnt st key + 1 .. cnt st' key]
       \<and> cnt st key \<le> cnt st' key
       \<and> ((uo = None \<or> po = None) \<and> cnt st key \<le> 1000 \<longrightarrow> cnt st' key \<le> 1000)
       \<and> (uo \<noteq> None \<and> po \<noteq> None \<longrightarrow> (\<forall>row\<in>set rows. user_id row = the uo \<and> peer_id row = the po))
       \<and> length rows = length idxs"
  using assms
proof (induction idxs arbitrary: st r rows)
  case Nil
  then show ?case by simp
next
  case (Cons i idxs)
  from Cons.prems(1) obtain row st1 r1 rows1 where
    step: "generate_record_row st i uo po r = Some (row, st1, r1)"
    and rest: "generate_records st1 idxs uo po r1 = Some (rows1, st', r')"
    and rows: "rows = row # rows1"
    by (auto split: option.splits)
  let ?k0 = "(user_id row, peer_id row)"
  from generate_record_row_step [OF step Cons.prems(2)] have
    id: "chat_local_id row = cnt st ?k0 + 1"
    and ctr: "chat_local_counter st1 = (chat_local_counter st)(?k0 \<mapsto> chat_local_id row)"
    and kc1: "keys_counted st1"
    and cap: "uo = None \<or> po = None \<longrightarrow> cnt st ?k0 < 1000"
    and fixed: "uo \<noteq> None \<and> po \<noteq> None \<longrightarrow> user_id row = the uo \<and> peer_id row = the po"
    by blast+
  have c1: "cnt st1 key = (if key = ?k0 then cnt st ?k0 + 1 else cnt st key)"
    by (simp add: cnt_def ctr id)
  from Cons.IH [OF rest kc1] have
    kc': "keys_counted st'"
    and ids: "map chat_local_id (filter (\<lambda>row. (user_id row, peer_id row) = key) rows1)
           = [cnt st1 key + 1 .. cnt st' key]"
    and mono: "cnt st1 key \<le> cnt st' key"
    and cap': "(uo = None \<or> po = None) \<and> cnt st1 key \<le> 1000 \<longrightarrow> cnt st' key \<le> 1000"
    and fixed': "uo \<noteq> None \<and> po \<noteq> None \<longrightarrow> (\<forall>row\<in>set rows1. user_id row = the uo \<and> peer_id row = the po)"
    and len: "length rows1 = length idxs"
    by blast+
  have a: "map chat_local_id (filter (\<lambda>row. (user_id row, peer_id row) = key) rows)
           = [cnt st key + 1 .. cnt st' key]"
  proof (cases "key = ?k0")
    case True
    have "cnt st key + 1 \<le> cnt st' key" using mono c1 True by simp
    then have "[cnt st key + 1 .. cnt st' key] = (cnt st key + 1) # [cnt st key + 1 + 1 .. cnt st' key]"
      by (rule upto_rec1)
    then show ?thesis using True rows ids id c1 by simp
  next
    case False
    then show ?thesis using rows ids c1 by auto
  qed
  have b: "cnt st key \<le> cnt st' key" using mono c1 by (simp split: if_splits)
  have c: "(uo = None \<or> po = None) \<and> cnt st key \<le> 1000 \<longrightarrow> cnt st' key \<le> 1000"
    using cap cap' c1 by (auto split: if_splits)
  have d: "uo \<noteq> None \<and> po \<noteq> None \<longrightarrow> (\<forall>row\<in>set rows. user_id row = the uo \<and> peer_id row = the po)"
    using fixed fixed' rows by auto
  show ?case using kc' a b c d len rows by simp
qed

lemma keys_counted_init: "keys_counted u2m_init"
  by (simp add: keys_counted_def u2m_init_def cnt_def)

lemma cnt_init: "cnt u2m_init key = 0"
  by (simp add: u2m_init_def cnt_def)

text \<open>With both ids given no branch of the row can fail.\<close>

lemma generate_record_row_fixed:
  "\<exists>res. generate_record_row st i (Some u) (Some p) r = Some res"
  by (simp add: generate_record_row_def Let_def split_beta)

lemma generate_records_fixed:
  "\<exists>res. generate_records st idxs (Some u) (Some p) r = Some res"
proof (induction idxs arbitrary: st r)
  case Nil
  show ?case by simp
next
  case (Cons i idxs)
  obtain row st1 r1 where s: "generate_record_row st i (Some u) (Some p) r = Some (row, st1, r1)"
    using generate_record_row_fixed [of st i u p r] by (metis prod_cases3)
  obtain rows st2 r2 where t: "generate_records st1 idxs (Some u) (Some p) r1 = Some (rows, st2, r2)"
    using Cons [of st1 r1] by (metis prod_cases3)
  show ?case by (simp add: s t)
qed


lemma snd_choice: "snd (choice xs r) = stl r"
  by (simp add: choice_def)

lemma generate_unique_message_key_first:
  "generate_unique_message_key counter r =
     (if pair_count counter (drawn_pair r 0) < 1000
      then Some ((fst (drawn_pair r 0), snd (drawn_pair r 0), pair_count counter (drawn_pair r 0) + 1),
                 stl (stl r))
      else generate_unique_message_key counter (stl (stl r)))"
  by (subst generate_unique_message_key.simps)
     (auto simp: drawn_pair_def pair_count_def choice_def split: option.splits)

lemma drawn_pair_Suc: "drawn_pair r (Suc j) = drawn_pair (stl (stl r)) j"
  by (simp add: drawn_pair_def)

lemma generate_unique_message_key_returns:
  assumes "pair_count counter (drawn_pair r j) < 1000"
    and "\<forall>i<j. \<not> pair_count counter (drawn_pair r i) < 1000"
  shows "generate_unique_message_key counter r
       = Some ((fst (drawn_pair r j), snd (drawn_pair r j), pair_count counter (drawn_pair r j) + 1),
               sdrop (2 * j + 2) r)"
  using assms
proof (induction j arbitrary: r)
  case 0
  then show ?case by (subst generate_unique_message_key_first) simp
next
  case (Suc j)
  from Suc.prems(2) have first: "\<not> pair_count counter (drawn_pair r 0) < 1000" by blast
  have a: "pair_count counter (drawn_pair (stl (stl r)) j) < 1000"
    using Suc.prems(1) by (simp add: drawn_pair_Suc)
  have b: "\<forall>i<j. \<not> pair_count counter (drawn_pair (stl (stl r)) i) < 1000"
    using Suc.prems(2) by (auto simp: drawn_pair_Suc [symmetric])
  have "generate_unique_message_key counter r = generate_unique_message_key counter (stl (stl r))"
    using first by (subst generate_unique_message_key_first) simp
  also note Suc.IH [OF a b]
  finally show ?case by (simp add: drawn_pair_Suc)
qed

lemma generate_unique_message_key_free:
  assumes "generate_unique_message_key counter r = Some y"
  shows "\<exists>j. pair_count counter (drawn_pair r j) < 1000"
proof (rule generate_unique_message_key.raw_induct
    [where P = "\<lambda>counter r y. \<exists>j. pair_count counter (drawn_pair r j) < 1000", OF _ assms])
  fix f :: "((int \<times> int) \<rightharpoonup> int) \<Rightarrow> rng \<Rightarrow> ((int \<times> int \<times> int) \<times> rng) option"
    and counter r y
  assume IH: "\<And>counter r y. f counter r = Some y \<Longrightarrow> \<exists>j. pair_count counter (drawn_pair r j) < 1000"
    and body: "(case choice users r of (u, r1) \<Rightarrow>
        (case choice peers r1 of (p, r2) \<Rightarrow>
           (case counter (u, p) of
              None \<Rightarrow> Some ((u, p, 1), r2)
            | Some c \<Rightarrow> if c < 1000 then Some ((u, p, c + 1), r2) else f counter r2))) = Some y"
  show "\<exists>j. pair_count counter (drawn_pair r j) < 1000"
  proof (cases "pair_count counter (drawn_pair r 0) < 1000")
    case True
    then show ?thesis by blast
  next
    case False
    with body have "f counter (stl (stl r)) = Some y"
      by (auto simp: drawn_pair_def pair_count_def choice_def split: option.splits if_splits)
    from IH [OF this] obtain j where "pair_count counter (drawn_pair (stl (stl r)) j) < 1000" ..
    then have "pair_count counter (drawn_pair r (Suc j)) < 1000"
      by (simp add: drawn_pair_Suc)
    then show ?thesis ..
  qed
qed

lemma generate_unique_message_key_diverges:
  assumes "\<forall>j. \<not> pair_count counter (drawn_pair r j) < 1000"
  shows "generate_unique_message_key counter r = None"
proof (cases "generate_unique_message_key counter r")
  case None
  then show ?thesis .
next
  case (Some y)
  from generate_unique_message_key_free [OF Some] assms show ?thesis by blast
qed

lemma drawn_pair_in_range: "fst (drawn_pair r j) \<in> set users \<and> snd (drawn_pair r j) \<in> set peers"
  by (simp add: drawn_pair_def choice_def length_users length_peers)

lemma pair_count_full_counter: "pair_count full_counter (drawn_pair r j) = 1000"
  using drawn_pair_in_range [of r j]
  by (cases "drawn_pair r j") (simp add: pair_count_def full_counter_def)

lemma cnt_pair_count: "cnt st key = pair_count (chat_local_counter st) key"
  by (simp add: cnt_def pair_count_def)

lemma upto_length_eq:
  assumes "map f rows = [1..n]" and "0 \<le> n"
  shows "n = int (length rows)"
proof -
  have "length (map f rows) = length [1..n]" using assms(1) by simp
  then show ?thesis using assms(2) by simp
qed

lemma fixed_ids_run:
  "\<exists>rows. generate_u2m_csv_file count (Some u) (Some p) r = Some rows
      \<and> length rows = nat count
      \<and> list_all (\<lambda>row. user_id row = u \<and> peer_id row = p) rows
      \<and> map chat_local_id rows = [1..int (nat count)]"
proof -
  obtain rows st' r' where
    run: "generate_records u2m_init (py_range count) (Some u) (Some p) r = Some (rows, st', r')"
    using generate_records_fixed [of u2m_init "py_range count" u p r] by (metis prod_cases3)
  from generate_records_inv [OF run keys_counted_init, of "(u, p)"] have
    kc: "keys_counted st'"
    and ids: "map chat_local_id (filter (\<lambda>row. (user_id row, peer_id row) = (u, p)) rows)
            = [cnt u2m_init (u, p) + 1 .. cnt st' (u, p)]"
    and all0: "Some u \<noteq> None \<and> Some p \<noteq> None \<longrightarrow>
            (\<forall>row\<in>set rows. user_id row = the (Some u) \<and> peer_id row = the (Some p))"
    and len: "length rows = length (py_range count)"
    by blast+
  from all0 have all: "\<forall>row\<in>set rows. user_id row = u \<and> peer_id row = p"
    by simp
  from all have f: "filter (\<lambda>row. (user_id row, peer_id row) = (u, p)) rows = rows"
    by (simp add: filter_id_conv)
  from kc have nn: "0 \<le> cnt st' (u, p)" unfolding keys_counted_def by blast
  from ids f have m: "map chat_local_id rows = [1 .. cnt st' (u, p)]"
    by (simp add: cnt_init)
  from upto_length_eq [OF m nn] len have "cnt st' (u, p) = int (nat count)"
    by (simp add: length_py_range)
  with m have "map chat_local_id rows = [1..int (nat count)]" by simp
  moreover have "list_all (\<lambda>row. user_id row = u \<and> peer_id row = p) rows"
    using all by (simp add: list_all_iff)
  moreover have "length rows = nat count" using len by (simp add: length_py_range)
  moreover have "generate_u2m_csv_file count (Some u) (Some p) r = Some rows"
    using run by (simp add: generate_u2m_csv_file_def)
  ultimately show ?thesis by blast
qed

lemma pair_ids_run:
  assumes "generate_u2m_csv_file count uo po r = Some rows"
  shows "\<exists>n. map chat_local_id (filter (\<lambda>row. user_id row = u \<and> peer_id row = p) rows) = [1..n]
           \<and> (uo = None \<or> po = None \<longrightarrow> n \<le> 1000)"
proof -
  from assms obtain st' r' where
    run: "generate_records u2m_init (py_range count) uo po r = Some (rows, st', r')"
    by (auto simp: generate_u2m_csv_file_def)
  from generate_records_inv [OF run keys_counted_init, of "(u, p)"] have
    ids: "map chat_local_id (filter (\<lambda>row. (user_id row, peer_id row) = (u, p)) rows)
            = [cnt u2m_init (u, p) + 1 .. cnt st' (u, p)]"
    and cap: "(uo = None \<or> po = None) \<and> cnt u2m_init (u, p) \<le> 1000 \<longrightarrow> cnt st' (u, p) \<le> 1000"
    by blast+
  have "map chat_local_id (filter (\<lambda>row. user_id row = u \<and> peer_id row = p) rows) = [1 .. cnt st' (u, p)]"
    using ids by (simp add: cnt_init)
  moreover have "uo = None \<or> po = None \<longrightarrow> cnt st' (u, p) \<le> 1000"
    using cap by (simp add: cnt_init)
  ultimately show ?thesis by blast
qed

lemma last_upto: "i \<le> j \<Longrightarrow> last [i..j] = j"
  by (simp add: upto_rec2 [of i j])

lemma sdrop_draws_Nil: "sdrop n (draws []) = draws []"
  by (induction n) (simp_all add: stl_draws_Nil)

lemma choice_peers: "choice peers r = (1000 + int (shd r mod 499000), stl r)"
  by (simp add: choice_def length_peers nth_peers)

lemma drawn_pair_draws_Nil: "drawn_pair (draws []) j = (1000, 1000)"
  by (simp add: drawn_pair_def sdrop_draws_Nil choice_users choice_peers draws_simps)

lemma py_range_2: "py_range 2 = [0, 1]"
  by (simp add: py_range_def upt_rec)

lemmas u2m_run_simps = draws_simps choice_users choice_peers drawn_pair_def pair_count_def
  generate_unique_message_key_first generate_record_row_def generate_flags_u2m_def
  random_random_def u2m_init_def generate_u2m_csv_file_def py_range_2 Let_def

text \<open>
  Claim C1, as amended. In every UserToMessage output the rows of one pair of
  \<open>user_id\<close> and \<open>peer_id\<close> carry the \<open>chat_local_id\<close> values \<open>1, 2, \<dots>, n\<close> in this
  order, without gaps. When the pair is allocated by the generator (one of the two ids
  not given) \<open>n\<close> is at most 1000. When both ids are given, the run always completes,
  every row carries the given pair and the ids run from 1 to the row count: this path has
  no cap.
\<close>

theorem chat_local_id_sequence:
  "(generate_u2m_csv_file count uo po r = Some rows \<longrightarrow>
      (\<exists>n. map chat_local_id (filter (\<lambda>row. user_id row = u \<and> peer_id row = p) rows) = [1..n]
           \<and> (uo = None \<or> po = None \<longrightarrow> n \<le> 1000)))
   \<and> (\<exists>rows. generate_u2m_csv_file count (Some u) (Some p) r = Some rows
         \<and> length rows = nat count
         \<and> list_all (\<lambda>row. user_id row = u \<and> peer_id row = p) rows
         \<and> map chat_local_id rows = [1..int (nat count)])"
  using pair_ids_run [of count uo po r rows u p] fixed_ids_run [of count u p r] by blast

theorem chat_local_id_sequence_witness:
  "generate_u2m_csv_file 2 None None (draws [])
     = Some [\<lparr>user_id = 1000, peer_id = 1000, chat_local_id = 1, u2m_flags = 255\<rparr>,
             \<lparr>user_id = 1000, peer_id = 1000, chat_local_id = 2, u2m_flags = 255\<rparr>]
   \<and> (\<exists>n. map chat_local_id (filter (\<lambda>row. user_id row = 1000 \<and> peer_id row = 1000)
               [\<lparr>user_id = 1000, peer_id = 1000, chat_local_id = 1, u2m_flags = 255\<rparr>,
                \<lparr>user_id = 1000, peer_id = 1000, chat_local_id = 2, u2m_flags = 255\<rparr>]) = [1..n]
          \<and> n \<le> 1000)"
proof -
  have run: "generate_u2m_csv_file 2 None None (draws [])
     = Some [\<lparr>user_id = 1000, peer_id = 1000, chat_local_id = 1, u2m_flags = 255\<rparr>,
             \<lparr>user_id = 1000, peer_id = 1000, chat_local_id = 2, u2m_flags = 255\<rparr>]"
    by (simp add: u2m_run_simps)
  from chat_local_id_sequence [of 2 None None "draws []"
      "[\<lparr>user_id = 1000, peer_id = 1000, chat_local_id = 1, u2m_flags = 255\<rparr>,
        \<lparr>user_id = 1000, peer_id = 1000, chat_local_id = 2, u2m_flags = 255\<rparr>]" 1000 1000] run
  have "\<exists>n. map chat_local_id (filter (\<lambda>row. user_id row = 1000 \<and> peer_id row = 1000)
               [\<lparr>user_id = 1000, peer_id = 1000, chat_local_id = 1, u2m_flags = 255\<rparr>,
                \<lparr>user_id = 1000, peer_id = 1000, chat_local_id = 2, u2m_flags = 255\<rparr>]) = [1..n]
          \<and> n \<le> 1000"
    by blast
  with run show ?thesis by blast
qed

text \<open>
  With both ids given and 1001 rows to generate, the last row carries the id 1001, above
  the cap of 1000.
\<close>

theorem chat_local_id_cap_counterexample:
  "generate_u2m_csv_file 1001 (Some 1000) (Some 1000) (draws []) \<noteq> None
   \<and> chat_local_id (last (the (generate_u2m_csv_file 1001 (Some 1000) (Some 1000) (draws [])))) = 1001"
proof -
  from fixed_ids_run [of 1001 1000 1000 "draws []"] obtain rows where
    run: "generate_u2m_csv_file 1001 (Some 1000) (Some 1000) (draws []) = Some rows"
    and len: "length rows = nat 1001"
    and ids: "map chat_local_id rows = [1..int (nat 1001)]"
    by blast
  from len have ne: "rows \<noteq> []" by auto
  have "chat_local_id (last rows) = last (map chat_local_id rows)"
    using ne by (simp add: last_map)
  also have "\<dots> = last [1..1001]" by (simp only: ids) simp
  also have "\<dots> = 1001" by (rule last_upto) simp
  finally show ?thesis using run by simp
qed


lemma sdrop_draws: "sdrop n (draws xs) = draws (drop n xs)"
proof (induction n arbitrary: xs)
  case 0
  show ?case by simp
next
  case (Suc n)
  show ?case
  proof (cases xs)
    case Nil
    then show ?thesis using Suc [of "[]"] by (simp add: stl_draws_Nil)
  next
    case (Cons x ys)
    then show ?thesis using Suc [of ys] by (simp add: stl_draws_Cons)
  qed
qed

lemma drawn_pair_draws:
  "drawn_pair (draws xs) j
     = (fst (choice users (draws (drop (2 * j) xs))),
        fst (choice peers (stl (draws (drop (2 * j) xs)))))"
  by (simp only: drawn_pair_def sdrop_draws)

lemma drawn_pair_example:
  "drawn_pair (draws [0, 0, 5, 7, 9, 9]) 0 = (1000, 1000)
   \<and> drawn_pair (draws [0, 0, 5, 7, 9, 9]) (Suc 0) = (1005, 1007)
   \<and> drawn_pair (draws [0, 0, 5, 7, 9, 9]) (Suc (Suc 0)) = (1009, 1009)
   \<and> sdrop (2 * Suc 0 + 2) (draws [0, 0, 5, 7, 9, 9]) = draws [9, 9]"
  by (simp add: drawn_pair_draws sdrop_draws choice_users choice_peers draws_simps)

text \<open>
  Claim C10, as amended. The allocation of a pair has no bound on its search and no
  fall-back. It returns at the first drawn pair that has no counter or a counter below
  1000: the result is this pair with its next id, which is at most 1000, and the random
  source behind the two draws of this pair. Hence it returns whenever the draws to come
  contain such a pair. When no draw to come gives such a pair the call does not return.
\<close>

theorem pair_allocation_search:
  "(pair_count counter (drawn_pair r j) < 1000
      \<and> (\<forall>i<j. \<not> pair_count counter (drawn_pair r i) < 1000) \<longrightarrow>
      generate_unique_message_key counter r
        = Some ((fst (drawn_pair r j), snd (drawn_pair r j), pair_count counter (drawn_pair r j) + 1),
                sdrop (2 * j + 2) r)
      \<and> pair_count counter (drawn_pair r j) + 1 \<le> 1000)
   \<and> ((\<exists>k. pair_count counter (drawn_pair r k) < 1000) \<longrightarrow>
         generate_unique_message_key counter r \<noteq> None)
   \<and> ((\<forall>k. \<not> pair_count counter (drawn_pair r k) < 1000) \<longrightarrow>
         generate_unique_message_key counter r = None)"
proof (intro conjI impI)
  assume a: "pair_count counter (drawn_pair r j) < 1000
      \<and> (\<forall>i<j. \<not> pair_count counter (drawn_pair r i) < 1000)"
  then show "generate_unique_message_key counter r
        = Some ((fst (drawn_pair r j), snd (drawn_pair r j), pair_count counter (drawn_pair r j) + 1),
                sdrop (2 * j + 2) r)"
    by (intro generate_unique_message_key_returns) blast+
  from a show "pair_count counter (drawn_pair r j) + 1 \<le> 1000" by simp
next
  assume "\<exists>k. pair_count counter (drawn_pair r k) < 1000"
  then obtain k where k: "pair_count counter (drawn_pair r k) < 1000"
    and least: "\<forall>i<k. \<not> pair_count counter (drawn_pair r i) < 1000"
    using exists_least_iff [of "\<lambda>k. pair_count counter (drawn_pair r k) < 1000"] by blast
  from generate_unique_message_key_returns [OF k least]
  show "generate_unique_message_key counter r \<noteq> None" by simp
next
  assume "\<forall>k. \<not> pair_count counter (drawn_pair r k) < 1000"
  then show "generate_unique_message_key counter r = None"
    by (rule generate_unique_message_key_diverges)
qed

theorem pair_allocation_search_witness:
  "\<not> pair_count [(1000, 1000) \<mapsto> 1000, (1005, 1007) \<mapsto> 3] (drawn_pair (draws [0, 0, 5, 7, 9, 9]) 0) < 1000
   \<and> pair_count [(1000, 1000) \<mapsto> 1000, (1005, 1007) \<mapsto> 3] (drawn_pair (draws [0, 0, 5, 7, 9, 9]) (Suc 0)) < 1000
   \<and> pair_count [(1000, 1000) \<mapsto> 1000, (1005, 1007) \<mapsto> 3] (drawn_pair (draws [0, 0, 5, 7, 9, 9]) (Suc (Suc 0))) < 1000
   \<and> generate_unique_message_key [(1000, 1000) \<mapsto> 1000, (1005, 1007) \<mapsto> 3] (draws [0, 0, 5, 7, 9, 9])
       = Some ((1005, 1007, 4), draws [9, 9])
   \<and> generate_unique_message_key [(1000, 1000) \<mapsto> 1000, (1005, 1007) \<mapsto> 3] (draws [0, 0, 5, 7, 9, 9]) \<noteq> None
   \<and> (\<forall>k. \<not> pair_count [(1000, 1000) \<mapsto> 1000] (drawn_pair (draws []) k) < 1000)
   \<and> generate_unique_message_key [(1000, 1000) \<mapsto> 1000] (draws []) = None"
proof -
  let ?c = "[(1000::int, 1000::int) \<mapsto> 1000::int, (1005, 1007) \<mapsto> 3]"
  let ?r = "draws [0, 0, 5, 7, 9, 9]"
  note dp = drawn_pair_example
  have h0: "\<not> pair_count ?c (drawn_pair ?r 0) < 1000"
    by (simp add: dp pair_count_def)
  have h1: "pair_count ?c (drawn_pair ?r (Suc 0)) < 1000"
    by (simp add: dp pair_count_def)
  have h2: "pair_count ?c (drawn_pair ?r (Suc (Suc 0))) < 1000"
    by (simp add: dp pair_count_def)
  from h0 have least: "\<forall>i<Suc 0. \<not> pair_count ?c (drawn_pair ?r i) < 1000" by simp
  from pair_allocation_search [of ?c ?r "Suc 0"] h1 least
  have "generate_unique_message_key ?c ?r
        = Some ((fst (drawn_pair ?r (Suc 0)), snd (drawn_pair ?r (Suc 0)),
                 pair_count ?c (drawn_pair ?r (Suc 0)) + 1), sdrop (2 * Suc 0 + 2) ?r)"
    by blast
  then have e: "generate_unique_message_key ?c ?r = Some ((1005, 1007, 4), draws [9, 9])"
    by (simp add: dp pair_count_def sdrop_draws)
  from h1 have "\<exists>k. pair_count ?c (drawn_pair ?r k) < 1000" ..
  with pair_allocation_search [of ?c ?r "Suc 0"]
  have t: "generate_unique_message_key ?c ?r \<noteq> None" by blast
  have b: "\<forall>k. \<not> pair_count [(1000, 1000) \<mapsto> 1000] (drawn_pair (draws []) k) < 1000"
    by (simp add: drawn_pair_draws_Nil pair_count_def)
  with pair_allocation_search [of "[(1000, 1000) \<mapsto> 1000]" "draws []" 0]
  have n: "generate_unique_message_key [(1000, 1000) \<mapsto> 1000] (draws []) = None"
    by blast
  from h0 h1 h2 e t b n show ?thesis by (intro conjI)
qed

text \<open>
  Once every pair has reached the cap, a call of the allocation never returns, whatever
  the draws.
\<close>

theorem generate_unique_message_key_counterexample:
  "generate_unique_message_key full_counter (draws []) = None"
  by (rule generate_unique_message_key_diverges) (simp add: pair_count_full_counter)

section \<open>Properties of the PeerIds generator\<close>

lemma length_user_ids: "length user_ids = 999000"
  unfolding user_ids_def by (simp del: upt_rec_numeral)

lemma nth_user_ids: "k < 999000 \<Longrightarrow> user_ids ! k = 1000 + int k"
  unfolding user_ids_def by (simp del: upt_rec_numeral)

lemma choice_user_ids: "choice user_ids r = (1000 + int (shd r mod 999000), stl r)"
  by (simp add: choice_def length_user_ids nth_user_ids)

lemma perturb_unused:
  "(user, ts) \<notin> used_pairs \<Longrightarrow> perturb used_pairs user ts attempts r = (ts, attempts, r)"
  by (simp add: perturb.simps)

lemma py_range_1: "py_range 1 = [0]"
  by (simp add: py_range_def)

lemmas peerids_run_simps = draws_simps choice_user_ids length_user_ids nth_user_ids choice_def
  perturb_unused
  generate_peerids_csv_def generate_optimized_peerids_def generate_timestamp_now_def
  generate_peerid_row_def generate_peer_flags_def random_random_def randint_def
  py_range_1 py_range_2 Let_def


lemma randint_ge: "a \<le> fst (randint a b r)"
  by (simp add: randint_def)

lemma perturb_ge: "ts \<le> fst (perturb used_pairs user ts attempts r)"
proof (induction used_pairs user ts attempts r rule: perturb.induct)
  case (1 used_pairs user ts attempts r)
  show ?case
  proof (cases "(user, ts) \<in> used_pairs \<and> attempts < 10")
    case True
    obtain d r1 where d: "randint 1 10 r = (d, r1)" by (cases "randint 1 10 r")
    from randint_ge [of 1 10 r] d have "1 \<le> d" by simp
    moreover from "1.IH" [OF True d [symmetric] refl]
    have "ts + d \<le> fst (perturb used_pairs user (ts + d) (attempts + 1) r1)" .
    ultimately show ?thesis
      using True d by (subst perturb.simps) simp
  next
    case False
    then show ?thesis by (subst perturb.simps) auto
  qed
qed

lemma perturb_fresh:
  "perturb used_pairs user ts attempts r = (ts', attempts', r') \<Longrightarrow> attempts' < 10
     \<Longrightarrow> (user, ts') \<notin> used_pairs"
proof (induction used_pairs user ts attempts r rule: perturb.induct)
  case (1 used_pairs user ts attempts r)
  show ?case
  proof (cases "(user, ts) \<in> used_pairs \<and> attempts < 10")
    case True
    obtain d r1 where d: "randint 1 10 r = (d, r1)" by (cases "randint 1 10 r")
    from "1.prems"(1) True d
    have "perturb used_pairs user (ts + d) (attempts + 1) r1 = (ts', attempts', r')"
      by (subst (asm) perturb.simps) simp
    from "1.IH" [OF True d [symmetric] refl this "1.prems"(2)] show ?thesis .
  next
    case False
    with "1.prems"(1) have "ts' = ts" and "attempts' = attempts"
      by (subst (asm) perturb.simps, auto)+
    with False "1.prems"(2) show ?thesis by auto
  qed
qed

lemma generate_peerid_row_fields:
  "pi_user_id (fst (generate_peerid_row user chat base r)) = user
   \<and> invite_timestamp (fst (generate_peerid_row user chat base r)) = base
   \<and> base \<le> last_message_ts (fst (generate_peerid_row user chat base r))"
  using randint_ge [of 0 "30 * 24 * 3600" r]
  by (simp add: generate_peerid_row_def Let_def split_beta)

lemma peerids_loop_rows:
  assumes "peerids_loop idxs chat_ids used_pairs clk r = Inr (rows, atts)"
  shows "(\<forall>row\<in>set rows. invite_timestamp row \<le> last_message_ts row)
       \<and> length rows = length idxs \<and> length atts = length idxs
       \<and> ((\<forall>a\<in>set atts. a < 10) \<longrightarrow>
            distinct (map pair_of rows) \<and> (\<forall>row\<in>set rows. pair_of row \<notin> used_pairs))"
  using assms
proof (induction idxs arbitrary: used_pairs clk r rows atts)
  case Nil
  then show ?case by simp
next
  case (Cons i idxs)
  obtain user r1 where a: "choice user_ids r = (user, r1)" by (cases "choice user_ids r")
  from Cons.prems a have ne: "chat_ids \<noteq> []"
    by (auto simp: Let_def split: if_splits)
  obtain chat r2 where b: "choice chat_ids r1 = (chat, r2)" by (cases "choice chat_ids r1")
  obtain invite_ts clk1 r3 where c: "generate_timestamp_now 3 clk r2 = (invite_ts, clk1, r3)"
    by (cases "generate_timestamp_now 3 clk r2")
  obtain off r4 where d: "randint 0 (180 * 24 * 3600) r3 = (off, r4)"
    by (cases "randint 0 (180 * 24 * 3600) r3")
  obtain last_ts attempts r5 where e: "perturb used_pairs user (invite_ts + off) 0 r4 = (last_ts, attempts, r5)"
    by (cases "perturb used_pairs user (invite_ts + off) 0 r4")
  obtain row r6 where f: "generate_peerid_row user chat invite_ts r5 = (row, r6)"
    by (cases "generate_peerid_row user chat invite_ts r5")
  from Cons.prems a ne b c d e f obtain rows1 atts1 where
    rest: "peerids_loop idxs chat_ids (insert (user, last_ts) used_pairs) clk1 r6 = Inr (rows1, atts1)"
    and rows: "rows = row\<lparr>last_message_ts := last_ts\<rparr> # rows1"
    and atts: "atts = attempts # atts1"
    by (auto simp: Let_def split: sum.splits)
  from randint_ge [of 0 "180 * 24 * 3600" r3] d have off: "0 \<le> off" by simp
  from perturb_ge [of "invite_ts + off" used_pairs user 0 r4] e
  have ge: "invite_ts + off \<le> last_ts" by simp
  from generate_peerid_row_fields [of user chat invite_ts r5] f
  have u: "pi_user_id row = user" and inv: "invite_timestamp row = invite_ts" by simp_all
  from Cons.IH [OF rest] have
    ih1: "\<forall>row\<in>set rows1. invite_timestamp row \<le> last_message_ts row"
    and ih2: "length rows1 = length idxs" "length atts1 = length idxs"
    and ih3: "(\<forall>a\<in>set atts1. a < 10) \<longrightarrow>
            distinct (map pair_of rows1)
            \<and> (\<forall>row\<in>set rows1. pair_of row \<notin> insert (user, last_ts) used_pairs)"
    by blast+
  have p1: "\<forall>row\<in>set rows. invite_timestamp row \<le> last_message_ts row"
    using ih1 rows inv off ge by simp
  have p2: "distinct (map pair_of rows) \<and> (\<forall>row\<in>set rows. pair_of row \<notin> used_pairs)"
    if all: "\<forall>a\<in>set atts. a < 10"
  proof -
    from all atts have "attempts < 10" and "\<forall>a\<in>set atts1. a < 10" by simp_all
    from perturb_fresh [OF e \<open>attempts < 10\<close>] have fresh: "(user, last_ts) \<notin> used_pairs" .
    from ih3 \<open>\<forall>a\<in>set atts1. a < 10\<close> have
      d1: "distinct (map pair_of rows1)"
      and n1: "\<forall>row\<in>set rows1. pair_of row \<notin> insert (user, last_ts) used_pairs"
      by blast+
    have pr: "pair_of (row\<lparr>last_message_ts := last_ts\<rparr>) = (user, last_ts)"
      by (simp add: pair_of_def u)
    show ?thesis using rows d1 n1 fresh pr by auto
  qed
  show ?case using p1 p2 ih2 rows atts by simp
qed

text \<open>Absent retry exhaustion the plain mode writes no pair twice.\<close>

lemma generate_peerids_csv_unique:
  assumes "generate_peerids_csv count chat_ids clk r = Inr (rows, atts)"
    and "\<forall>a\<in>set atts. a < 10"
  shows "distinct (map pair_of rows)"
  using peerids_loop_rows [of "py_range count" chat_ids "{}" clk r rows atts] assms
  by (simp add: generate_peerids_csv_def)

lemma users_loop_ordered:
  "rows_ordered st \<Longrightarrow> rows_ordered (users_loop n count chat base_ts st)"
proof (induction n arbitrary: st)
  case 0
  then show ?case by simp
next
  case (Suc n)
  show ?case
  proof (cases "total_generated st \<ge> count")
    case True
    with Suc.prems show ?thesis by simp
  next
    case False
    obtain user r1 where a: "choice user_ids (source st) = (user, r1)"
      by (cases "choice user_ids (source st)")
    obtain d1 r2 where b: "randint 0 (7 * 24 * 3600) r1 = (d1, r2)"
      by (cases "randint 0 (7 * 24 * 3600) r1")
    obtain d2 r3 where c: "randint 0 (180 * 24 * 3600) r2 = (d2, r3)"
      by (cases "randint 0 (180 * 24 * 3600) r2")
    obtain row r4 where d: "generate_peerid_row user chat (base_ts + d1) r3 = (row, r4)"
      by (cases "generate_peerid_row user chat (base_ts + d1) r3")
    from randint_ge [of 0 "180 * 24 * 3600" r2] c have d2: "0 \<le> d2" by simp
    from generate_peerid_row_fields [of user chat "base_ts + d1" r3] d
    have inv: "invite_timestamp row = base_ts + d1" by simp
    let ?row1 = "row\<lparr>last_message_ts := base_ts + d1 + d2\<rparr>"
    have ok: "invite_timestamp ?row1 \<le> last_message_ts ?row1" using inv d2 by simp
    let ?st1 = "(if length (buffer st @ [?row1]) \<ge> 1000
                 then st\<lparr>total_generated := total_generated st + 1, buffer := [],
                         written := written st @ buffer st @ [?row1], source := r4\<rparr>
                 else st\<lparr>total_generated := total_generated st + 1,
                         buffer := buffer st @ [?row1], source := r4\<rparr>)"
    have "rows_ordered ?st1"
      using Suc.prems ok by (auto simp: rows_ordered_def)
    from Suc.IH [OF this] show ?thesis
      using False a b c d by (simp add: Let_def)
  qed
qed

lemma chats_loop_ordered:
  "rows_ordered st \<Longrightarrow> rows_ordered (chats_loop cs idx len count rpc clk st)"
proof (induction cs arbitrary: idx clk st)
  case Nil
  then show ?case by simp
next
  case (Cons chat rest)
  show ?case
  proof (cases "total_generated st \<ge> count")
    case True
    with Cons.prems show ?thesis by simp
  next
    case False
    have s: "rows_ordered (st\<lparr>source := r\<rparr>)" for r
      using Cons.prems by (simp add: rows_ordered_def)
    show ?thesis
      using False by (simp add: Let_def split_beta Cons.IH users_loop_ordered s)
  qed
qed

lemma peerids_run_plain:
  "generate_peerids_csv 1 [1000] (sconst 1700000000) (draws [123, 0, 400, 5, 30, 15, 0])
     = Inr ([\<lparr>pi_user_id = 1123, pi_chat_id = 1000, invite_timestamp = 1665420185,
             disable_for = 0, pi_flags = 31, inviter_id = 1000, last_read_message_id = 0,
             last_message_id = 0, last_message_ts = 1665420185\<rparr>], [0])"
  by (simp add: peerids_run_simps)

lemma peerids_run_plain_later:
  "generate_peerids_csv 1 [1000] (sconst 1700000001) (draws [123, 0, 400, 5, 30, 15, 0])
     = Inr ([\<lparr>pi_user_id = 1123, pi_chat_id = 1000, invite_timestamp = 1665420186,
             disable_for = 0, pi_flags = 31, inviter_id = 1000, last_read_message_id = 0,
             last_message_id = 0, last_message_ts = 1665420186\<rparr>], [0])"
  by (simp add: peerids_run_simps)

lemma peerids_run_optimized:
  "generate_optimized_peerids 2 [1000] 5 (sconst 1700000000)
     (draws [10, 4, 2, 3, 77, 100, 500, 0, 50, 0, 0, 0, 0, 0, 5, 7, 2, 77, 250, 350])
     = Inr [\<lparr>pi_user_id = 1077, pi_chat_id = 1000, invite_timestamp = 1699121577,
            disable_for = 0, pi_flags = 31, inviter_id = 1005, last_read_message_id = 7,
            last_message_id = 2, last_message_ts = 1699122077\<rparr>,
            \<lparr>pi_user_id = 1077, pi_chat_id = 1000, invite_timestamp = 1699121727,
            disable_for = 0, pi_flags = 31, inviter_id = 1000, last_read_message_id = 0,
            last_message_id = 0, last_message_ts = 1699122077\<rparr>]"
  by (simp add: peerids_run_simps numeral_2_eq_2)

text \<open>
  Claim C8, as amended. In every PeerIds row, of the plain and of the optimized mode,
  \<open>last_message_ts\<close> is greater than or equal to \<open>invite_timestamp\<close>.
\<close>

theorem last_message_ts_not_before_invite:
  "(generate_peerids_csv count chat_ids clk r = Inr (rows, atts) \<longrightarrow>
      (\<forall>row\<in>set rows. invite_timestamp row \<le> last_message_ts row))
   \<and> (generate_optimized_peerids count chat_ids users_per_chat clk r = Inr rows' \<longrightarrow>
      (\<forall>row\<in>set rows'. invite_timestamp row \<le> last_message_ts row))"
proof (intro conjI impI)
  assume "generate_peerids_csv count chat_ids clk r = Inr (rows, atts)"
  then show "\<forall>row\<in>set rows. invite_timestamp row \<le> last_message_ts row"
    using peerids_loop_rows [of "py_range count" chat_ids "{}" clk r rows atts]
    by (simp add: generate_peerids_csv_def)
next
  assume run: "generate_optimized_peerids count chat_ids users_per_chat clk r = Inr rows'"
  define st where "st = chats_loop chat_ids 0 (length chat_ids) count
      (max 1 (count div int (length chat_ids))) clk
      \<lparr>total_generated = 0, buffer = [], written = [], source = r\<rparr>"
  have "rows_ordered \<lparr>total_generated = 0, buffer = [], written = [], source = r\<rparr>"
    by (simp add: rows_ordered_def)
  then have o: "rows_ordered st"
    unfolding st_def by (rule chats_loop_ordered)
  from run have "rows' = (if buffer st \<noteq> [] then written st @ buffer st else written st)"
    by (auto simp: generate_optimized_peerids_def Let_def st_def split: if_splits)
  then have "rows' = written st @ buffer st" by simp
  with o show "\<forall>row\<in>set rows'. invite_timestamp row \<le> last_message_ts row"
    by (simp add: rows_ordered_def)
qed


theorem last_message_ts_not_before_invite_witness:
  "generate_peerids_csv 1 [1000] (sconst 1700000000) (draws [123, 0, 400, 5, 30, 15, 0])
     = Inr ([\<lparr>pi_user_id = 1123, pi_chat_id = 1000, invite_timestamp = 1665420185,
             disable_for = 0, pi_flags = 31, inviter_id = 1000, last_read_message_id = 0,
             last_message_id = 0, last_message_ts = 1665420185\<rparr>], [0])
   \<and> invite_timestamp \<lparr>pi_user_id = 1123, pi_chat_id = 1000, invite_timestamp = 1665420185,
             disable_for = 0, pi_flags = 31, inviter_id = 1000, last_read_message_id = 0,
             last_message_id = 0, last_message_ts = 1665420185\<rparr>
       \<le> last_message_ts \<lparr>pi_user_id = 1123, pi_chat_id = 1000, invite_timestamp = 1665420185,
             disable_for = 0, pi_flags = 31, inviter_id = 1000, last_read_message_id = 0,
             last_message_id = 0, last_message_ts = 1665420185\<rparr>
   \<and> generate_optimized_peerids 2 [1000] 5 (sconst 1700000000)
     (draws [10, 4, 2, 3, 77, 100, 500, 0, 50, 0, 0, 0, 0, 0, 5, 7, 2, 77, 250, 350])
     = Inr [\<lparr>pi_user_id = 1077, pi_chat_id = 1000, invite_timestamp = 1699121577,
            disable_for = 0, pi_flags = 31, inviter_id = 1005, last_read_message_id = 7,
            last_message_id = 2, last_message_ts = 1699122077\<rparr>,
            \<lparr>pi_user_id = 1077, pi_chat_id = 1000, invite_timestamp = 1699121727,
            disable_for = 0, pi_flags = 31, inviter_id = 1000, last_read_message_id = 0,
            last_message_id = 0, last_message_ts = 1699122077\<rparr>]
   \<and> invite_timestamp \<lparr>pi_user_id = 1077, pi_chat_id = 1000, invite_timestamp = 1699121577,
            disable_for = 0, pi_flags = 31, inviter_id = 1005, last_read_message_id = 7,
            last_message_id = 2, last_message_ts = 1699122077\<rparr>
       \<le> last_message_ts \<lparr>pi_user_id = 1077, pi_chat_id = 1000, invite_timestamp = 1699121577,
            disable_for = 0, pi_flags = 31, inviter_id = 1005, last_read_message_id = 7,
            last_message_id = 2, last_message_ts = 1699122077\<rparr>"
proof -
  note a = peerids_run_plain and b = peerids_run_optimized
  from last_message_ts_not_before_invite [where count = 1 and chat_ids = "[1000]"
      and clk = "sconst 1700000000" and r = "draws [123, 0, 400, 5, 30, 15, 0]"
      and atts = "[0]"] a
  have c: "invite_timestamp \<lparr>pi_user_id = 1123, pi_chat_id = 1000, invite_timestamp = 1665420185,
             disable_for = 0, pi_flags = 31, inviter_id = 1000, last_read_message_id = 0,
             last_message_id = 0, last_message_ts = 1665420185\<rparr>
       \<le> last_message_ts \<lparr>pi_user_id = 1123, pi_chat_id = 1000, invite_timestamp = 1665420185,
             disable_for = 0, pi_flags = 31, inviter_id = 1000, last_read_message_id = 0,
             last_message_id = 0, last_message_ts = 1665420185\<rparr>"
    by (metis list.set_intros(1))
  from last_message_ts_not_before_invite [where count = 2 and chat_ids = "[1000]"
      and users_per_chat = 5 and clk = "sconst 1700000000"
      and r = "draws [10, 4, 2, 3, 77, 100, 500, 0, 50, 0, 0, 0, 0, 0, 5, 7, 2, 77, 250, 350]"] b
  have d: "invite_timestamp \<lparr>pi_user_id = 1077, pi_chat_id = 1000, invite_timestamp = 1699121577,
            disable_for = 0, pi_flags = 31, inviter_id = 1005, last_read_message_id = 7,
            last_message_id = 2, last_message_ts = 1699122077\<rparr>
       \<le> last_message_ts \<lparr>pi_user_id = 1077, pi_chat_id = 1000, invite_timestamp = 1699121577,
            disable_for = 0, pi_flags = 31, inviter_id = 1005, last_read_message_id = 7,
            last_message_id = 2, last_message_ts = 1699122077\<rparr>"
    by (metis list.set_intros(1))
  from a b c d show ?thesis by (intro conjI)
qed

text \<open>
  The offset added to the invitation time is drawn from zero on: at these draws the one
  row written has both time stamps equal.
\<close>

theorem last_message_ts_strict_counterexample:
  "timestamps_of (hd (fst (projr (generate_peerids_csv 1 [1000] (sconst 1700000000)
      (draws [123, 0, 400, 5, 30, 15, 0]))))) = (1665420185, 1665420185)
   \<and> length (fst (projr (generate_peerids_csv 1 [1000] (sconst 1700000000)
      (draws [123, 0, 400, 5, 30, 15, 0])))) = 1"
  by (simp add: peerids_run_plain timestamps_of_def)

text \<open>
  Claim C7 does not hold of the PeerIds generator: \<open>generate_timestamp\<close> starts from
  the wall clock. Two runs with the same draws (the same seed), the same row count and
  the same chats, started one second apart, write different rows.
\<close>

theorem output_depends_on_clock:
  "map timestamps_of (fst (projr (generate_peerids_csv 1 [1000] (sconst 1700000000)
      (draws [123, 0, 400, 5, 30, 15, 0])))) = [(1665420185, 1665420185)]
   \<and> map timestamps_of (fst (projr (generate_peerids_csv 1 [1000] (sconst 1700000001)
      (draws [123, 0, 400, 5, 30, 15, 0])))) = [(1665420186, 1665420186)]
   \<and> generate_peerids_csv 1 [1000] (sconst 1700000000) (draws [123, 0, 400, 5, 30, 15, 0])
       \<noteq> generate_peerids_csv 1 [1000] (sconst 1700000001) (draws [123, 0, 400, 5, 30, 15, 0])"
  by (simp add: peerids_run_plain peerids_run_plain_later timestamps_of_def)

text \<open>
  Claim C2 does not hold of the optimized mode, which keeps no set of used pairs and never
  retries: at these draws its two rows carry the same \<open>user_id\<close> and the same
  \<open>last_message_ts\<close>. (The plain mode keeps the claim: see
  \<open>generate_peerids_csv_unique\<close>.)
\<close>

theorem optimized_peerids_duplicate_pair:
  "map pair_of (projr (generate_optimized_peerids 2 [1000] 5 (sconst 1700000000)
      (draws [10, 4, 2, 3, 77, 100, 500, 0, 50, 0, 0, 0, 0, 0, 5, 7, 2, 77, 250, 350])))
     = [(1077, 1699122077), (1077, 1699122077)]"
  by (simp add: peerids_run_optimized pair_of_def)

end
